theory Spec2Isabelle
  imports Complex_Main
begin

section \<open>Smart Energy Monitor backend (src/backend/server.js)\<close>

text \<open>
  The backend is one Express application over a PostgreSQL store. Every route handler is
  modelled as a function from the environment of one request, the request and the store
  to the response and the new store. The libraries the file calls (jsonwebtoken,
  bcryptjs, node-postgres and the store behind it) are not part of the repository: what
  they compute is taken from the environment record, and what the handlers depend on
  (which calls throw, which constraints the schema of \<open>initDB\<close> declares) is written out.
\<close>

subsection \<open>JavaScript values\<close>

text \<open>
  Request bodies, token payloads, rows returned by the store and response bodies are
  JavaScript values. Numbers are exact rationals: the binary rounding of doubles is
  outside the model. An object is an association list in which the first binding of a
  name is the property.
\<close>

datatype jsval =
    JUndefined
  | JNull
  | JBool bool
  | JNum rat
  | JStr string
  | JDate nat
  | JArr "jsval list"
  | JObj "(string \<times> jsval) list"

text \<open>\<open>!v\<close> is \<open>\<not> truthy v\<close>.\<close>

fun truthy :: "jsval \<Rightarrow> bool" where
  "truthy JUndefined = False"
| "truthy JNull = False"
| "truthy (JBool b) = b"
| "truthy (JNum q) = (q \<noteq> 0)"
| "truthy (JStr s) = (s \<noteq> [])"
| "truthy (JDate t) = True"
| "truthy (JArr xs) = True"
| "truthy (JObj kvs) = True"

text \<open>
  What the handlers throw and catch. \<open>err.detail\<close> is defined only on an error of
  the store that carries a DETAIL line.
\<close>

datatype js_error = TypeError | IllegalArguments | DatabaseError "string option"

fun err_detail :: "js_error \<Rightarrow> string option" where
  "err_detail TypeError = None"
| "err_detail IllegalArguments = None"
| "err_detail (DatabaseError d) = d"

text \<open>
  Property access \<open>v.k\<close> and the destructuring \<open>const { k } = v\<close>: a TypeError on
  \<open>undefined\<close> and \<open>null\<close>, \<open>undefined\<close> for a property that is not there.
  Of a value that is not an object literal the handlers read only names it does not
  have (\<open>email\<close>, \<open>password\<close>, \<open>power\<close>, \<open>id\<close> and the like).
\<close>

fun field :: "jsval \<Rightarrow> string \<Rightarrow> jsval" where
  "field (JObj kvs) k = (case map_of kvs k of None \<Rightarrow> JUndefined | Some v \<Rightarrow> v)"
| "field v k = JUndefined"

fun object_coercible :: "jsval \<Rightarrow> bool" where
  "object_coercible JUndefined = False"
| "object_coercible JNull = False"
| "object_coercible v = True"

definition get_prop :: "jsval \<Rightarrow> string \<Rightarrow> js_error + jsval" where
  "get_prop v k = (if object_coercible v then Inr (field v k) else Inl TypeError)"

text \<open>\<open>delete v.k\<close>.\<close>

fun delete_prop :: "jsval \<Rightarrow> string \<Rightarrow> jsval" where
  "delete_prop (JObj kvs) k = JObj (filter (\<lambda>kv. fst kv \<noteq> k) kvs)"
| "delete_prop v k = v"

fun keys :: "jsval \<Rightarrow> string list" where
  "keys (JObj kvs) = map fst kvs"
| "keys v = []"

text \<open>\<open>result.rows[0]\<close>: \<open>undefined\<close> when no row came back.\<close>

fun rows0 :: "jsval list \<Rightarrow> jsval" where
  "rows0 [] = JUndefined"
| "rows0 (r # rs) = r"

text \<open>\<open>s.split(sep)\<close> for a one-character separator.\<close>

fun split :: "char \<Rightarrow> string \<Rightarrow> string list" where
  "split sep [] = [[]]"
| "split sep (c # cs) =
     (if c = sep then [] # split sep cs
      else (case split sep cs of [] \<Rightarrow> [[c]] | p # ps \<Rightarrow> (c # p) # ps))"

text \<open>\<open>xs[i]\<close> on an array: \<open>undefined\<close> (here \<open>None\<close>) out of range.\<close>

definition index :: "'a list \<Rightarrow> nat \<Rightarrow> 'a option" where
  "index xs i = (if i < length xs then Some (xs ! i) else None)"

subsection \<open>The store: tables of \<open>initDB\<close>\<close>

record user_row =
  u_id :: int
  u_email :: string
  u_first_name :: string
  u_last_name :: string
  u_password :: string
  u_created_at :: nat
  u_last_login :: "nat option"
  u_settings :: jsval

record reading_row =
  r_id :: int
  r_user_id :: "int option"
  r_power_w :: "rat option"
  r_energy_wh :: "rat option"
  r_cost :: "rat option"
  r_timestamp :: nat

record db =
  users :: "user_row list"
  energy_readings :: "reading_row list"
  users_id_seq :: int
  energy_readings_id_seq :: int

text \<open>
  The \<open>id\<close> columns are \<open>SERIAL PRIMARY KEY\<close>: no statement of the handlers names
  an id to store, every id is the next value of the table's sequence. The store refuses
  a value of the sequence beyond the range of \<open>INTEGER\<close>, and an id that the table
  holds already; neither is modelled, and a property that depends on the row being
  stored says that the next id is within the range and not in the table.
\<close>

text \<open>The two tables as \<open>CREATE TABLE IF NOT EXISTS\<close> leaves them on a fresh database.\<close>

definition initDB :: db where
  "initDB = \<lparr>users = [], energy_readings = [], users_id_seq = 1, energy_readings_id_seq = 1\<rparr>"

text \<open>The six statements the handlers send, and the conditions the store raises.\<close>

datatype query =
    InsertUser | SelectUserByEmail | UpdateLastLogin | SelectProfile
  | InsertReading | SelectReadings

datatype pg_condition =
    not_null_violation | invalid_text_representation
  | numeric_value_out_of_range | foreign_key_violation

datatype jwt_error = JsonWebTokenError | NotBeforeError | TokenExpiredError

record jwt =
  jwt_payload :: jsval
  jwt_signature :: string

subsection \<open>The environment of a request\<close>

text \<open>
  Everything a handler reads that is neither the request nor the tables: the process
  environment, the two clocks, and the functions of the libraries. \<open>store_fault q\<close> is
  the error with which the store or the connection fails statement \<open>q\<close> whatever
  its data (\<open>None\<close>: it does not). \<open>hmac\<close> is the keyed signature of a payload,
  \<open>jwt_encode\<close> and \<open>jwt_decode\<close> the compact serialisation of a token and its parser.
  \<open>pg_text\<close> is the text node-postgres sends for a parameter that is not a string,
  \<open>int4in\<close> and \<open>numeric_in\<close> are the store's input functions for integers and
  decimals, \<open>numeric_out s\<close> the text in which a decimal of a column with \<open>s\<close>
  decimals comes back, \<open>pg_detail\<close> the DETAIL line of a condition. \<open>tie_rank\<close>
  is the store's choice among the rows that an ORDER BY leaves in no order.
\<close>

record env =
  JWT_SECRET :: "string option"
  date_now :: nat
  current_timestamp :: nat
  store_fault :: "query \<Rightarrow> js_error option"
  bcrypt_hash_fn :: "string \<Rightarrow> nat \<Rightarrow> string"
  bcrypt_compare_fn :: "string \<Rightarrow> string \<Rightarrow> bool"
  hmac :: "string \<Rightarrow> jsval \<Rightarrow> string"
  jwt_encode :: "jwt \<Rightarrow> string"
  jwt_decode :: "string \<Rightarrow> jwt option"
  pg_text :: "jsval \<Rightarrow> string"
  int4in :: "string \<Rightarrow> int option"
  numeric_in :: "string \<Rightarrow> rat option"
  numeric_out :: "nat \<Rightarrow> rat \<Rightarrow> string"
  pg_detail :: "pg_condition \<Rightarrow> string option"
  tie_rank :: "reading_row \<Rightarrow> nat"
  toISOString :: "nat \<Rightarrow> string"

definition pg_error :: "env \<Rightarrow> pg_condition \<Rightarrow> js_error" where
  "pg_error e c = DatabaseError (pg_detail e c)"

subsection \<open>bcryptjs\<close>

text \<open>
  \<open>bcrypt.hash(s, rounds)\<close> and \<open>bcrypt.compare(s, hash)\<close> reject with
  "Illegal arguments" unless \<open>s\<close> is a string.
\<close>

fun bcrypt_hash :: "env \<Rightarrow> jsval \<Rightarrow> nat \<Rightarrow> js_error + string" where
  "bcrypt_hash e (JStr s) rounds = Inr (bcrypt_hash_fn e s rounds)"
| "bcrypt_hash e v rounds = Inl IllegalArguments"

fun bcrypt_compare :: "env \<Rightarrow> jsval \<Rightarrow> jsval \<Rightarrow> js_error + bool" where
  "bcrypt_compare e (JStr s) (JStr h) = Inr (bcrypt_compare_fn e s h)"
| "bcrypt_compare e v w = Inl IllegalArguments"

subsection \<open>jsonwebtoken\<close>

text \<open>\<open>process.env.JWT_SECRET || 'energy-monitor-secret-key-2024'\<close>.\<close>

definition jwt_secret :: "env \<Rightarrow> string" where
  "jwt_secret e =
     (case JWT_SECRET e of
        None \<Rightarrow> ''energy-monitor-secret-key-2024''
      | Some s \<Rightarrow> if s = [] then ''energy-monitor-secret-key-2024'' else s)"

text \<open>\<open>expiresIn: '7d'\<close>, in seconds.\<close>

definition seven_days :: nat where
  "seven_days = 7 * 24 * 60 * 60"

text \<open>The clock of the library: \<open>Math.floor(Date.now() / 1000)\<close>.\<close>

definition clock_timestamp :: "env \<Rightarrow> nat" where
  "clock_timestamp e = date_now e div 1000"

text \<open>
  Modelled from the spec: the library jsonwebtoken, whose \<open>jwt.sign\<close> and
  \<open>jwt.verify\<close> the handlers call, is not among the source files. The specification
  (4.2, Token Service) has \<open>issue\<close> produce a signed token embedding the claims and
  the issuance time, valid for exactly seven days from issuance, and has \<open>verify\<close>
  check signature integrity and expiry, failing on an expired or malformed token and on
  a signature mismatch. The names of the claims (\<open>iat\<close>, \<open>exp\<close>, \<open>nbf\<close>),
  the order of the checks and the names of the errors are the library's.

  \<open>jwt.sign(payload, secret, { expiresIn })\<close>: the payload gets \<open>iat\<close> and
  \<open>exp = iat + expiresIn\<close> and is signed under the secret (\<open>jwt_token\<close>); the
  result is the serialised token.
\<close>

definition jwt_token :: "env \<Rightarrow> (string \<times> jsval) list \<Rightarrow> string \<Rightarrow> nat \<Rightarrow> jwt" where
  "jwt_token e payload secret expiresIn =
     (let iat = clock_timestamp e;
          p = JObj (payload @ [(''iat'', JNum (of_nat iat)), (''exp'', JNum (of_nat (iat + expiresIn)))])
      in \<lparr>jwt_payload = p, jwt_signature = hmac e secret p\<rparr>)"

definition jwt_sign :: "env \<Rightarrow> (string \<times> jsval) list \<Rightarrow> string \<Rightarrow> nat \<Rightarrow> string" where
  "jwt_sign e payload secret expiresIn = jwt_encode e (jwt_token e payload secret expiresIn)"

text \<open>
  Modelled from the spec: \<open>jwt.verify(token, secret, callback)\<close> of the same library.
  The token must parse, its signature must be the one the secret gives its payload, and
  then \<open>nbf\<close> and \<open>exp\<close>, where present, must be numbers with
  \<open>nbf \<le> now < exp\<close>. \<open>Inl\<close> is the callback's \<open>err\<close>, \<open>Inr\<close> the
  decoded payload.
\<close>

fun check_nbf :: "env \<Rightarrow> jsval \<Rightarrow> jwt_error option" where
  "check_nbf e JUndefined = None"
| "check_nbf e (JNum n) = (if n > of_nat (clock_timestamp e) then Some NotBeforeError else None)"
| "check_nbf e v = Some JsonWebTokenError"

fun check_exp :: "env \<Rightarrow> jsval \<Rightarrow> jwt_error option" where
  "check_exp e JUndefined = None"
| "check_exp e (JNum x) = (if of_nat (clock_timestamp e) \<ge> x then Some TokenExpiredError else None)"
| "check_exp e v = Some JsonWebTokenError"

definition jwt_verify :: "env \<Rightarrow> string \<Rightarrow> string \<Rightarrow> jwt_error + jsval" where
  "jwt_verify e token secret =
     (case jwt_decode e token of
        None \<Rightarrow> Inl JsonWebTokenError
      | Some t \<Rightarrow>
          if jwt_signature t \<noteq> hmac e secret (jwt_payload t) then Inl JsonWebTokenError
          else
            (case check_nbf e (field (jwt_payload t) ''nbf'') of
               Some err \<Rightarrow> Inl err
             | None \<Rightarrow>
                 (case check_exp e (field (jwt_payload t) ''exp'') of
                    Some err \<Rightarrow> Inl err
                  | None \<Rightarrow> Inr (jwt_payload t))))"

subsection \<open>node-postgres parameters and the column types of the schema\<close>

text \<open>
  A parameter that is \<open>undefined\<close> or \<open>null\<close> is sent as NULL, a string as it is,
  anything else in the text form of the driver.
\<close>

fun param_text :: "env \<Rightarrow> jsval \<Rightarrow> string" where
  "param_text e (JStr s) = s"
| "param_text e v = pg_text e v"

fun prepareValue :: "env \<Rightarrow> jsval \<Rightarrow> string option" where
  "prepareValue e JUndefined = None"
| "prepareValue e JNull = None"
| "prepareValue e v = Some (param_text e v)"

text \<open>
  \<open>VARCHAR(n)\<close>: a value that contains the character U+0000 is refused (the store
  takes no text with it, and refuses the parameter before the statement runs); a value
  longer than \<open>n\<close> characters is an error, unless what exceeds \<open>n\<close> characters is
  spaces only, which the store cuts off. Neither error carries a DETAIL line. A string
  is the list of its characters.
\<close>

definition varchar :: "nat \<Rightarrow> string \<Rightarrow> js_error + string" where
  "varchar n s =
     (if CHR 0x00 \<in> set s then Inl (DatabaseError None)
      else if length s \<le> n then Inr s
      else if list_all (\<lambda>c. c = CHR '' '') (drop n s) then Inr (take n s)
      else Inl (DatabaseError None))"

fun coerce_varchar :: "nat \<Rightarrow> string option \<Rightarrow> js_error + string option" where
  "coerce_varchar n None = Inr None"
| "coerce_varchar n (Some s) =
     (case varchar n s of Inl err \<Rightarrow> Inl err | Inr s' \<Rightarrow> Inr (Some s'))"

text \<open>
  \<open>INTEGER\<close>: a number must be whole, any other value goes through the store's input
  function. The range limit of the store's integers is not modelled.
\<close>

fun pg_integer :: "env \<Rightarrow> jsval \<Rightarrow> js_error + int option" where
  "pg_integer e JUndefined = Inr None"
| "pg_integer e JNull = Inr None"
| "pg_integer e (JNum q) =
     (if of_int \<lfloor>q\<rfloor> = q then Inr (Some \<lfloor>q\<rfloor>) else Inl (pg_error e invalid_text_representation))"
| "pg_integer e v =
     (case int4in e (param_text e v) of
        None \<Rightarrow> Inl (pg_error e invalid_text_representation)
      | Some i \<Rightarrow> Inr (Some i))"

text \<open>
  \<open>DECIMAL(p, s)\<close>: the value is rounded to \<open>s\<close> decimals, half away from zero, and
  must then be less than \<open>10 ^ (p - s)\<close> in absolute value.
\<close>

definition pg_round :: "nat \<Rightarrow> rat \<Rightarrow> rat" where
  "pg_round s q =
     (if 0 \<le> q then of_int \<lfloor>q * 10 ^ s + 1 / 2\<rfloor> / 10 ^ s
      else - (of_int \<lfloor>(- q) * 10 ^ s + 1 / 2\<rfloor> / 10 ^ s))"

definition decimal :: "env \<Rightarrow> nat \<Rightarrow> nat \<Rightarrow> rat \<Rightarrow> js_error + rat option" where
  "decimal e p s q =
     (if \<bar>pg_round s q\<bar> < 10 ^ (p - s) then Inr (Some (pg_round s q))
      else Inl (pg_error e numeric_value_out_of_range))"

fun pg_numeric :: "env \<Rightarrow> nat \<Rightarrow> nat \<Rightarrow> jsval \<Rightarrow> js_error + rat option" where
  "pg_numeric e p s JUndefined = Inr None"
| "pg_numeric e p s JNull = Inr None"
| "pg_numeric e p s (JNum q) = decimal e p s q"
| "pg_numeric e p s v =
     (case numeric_in e (param_text e v) of
        None \<Rightarrow> Inl (pg_error e invalid_text_representation)
      | Some q \<Rightarrow> decimal e p s q)"

subsection \<open>Rows as the driver returns them\<close>

fun opt_date :: "nat option \<Rightarrow> jsval" where
  "opt_date None = JNull"
| "opt_date (Some t) = JDate t"

fun opt_int :: "int option \<Rightarrow> jsval" where
  "opt_int None = JNull"
| "opt_int (Some i) = JNum (of_int i)"

text \<open>A decimal column comes back as a string, written with the decimals of the column.\<close>

fun opt_numeric :: "env \<Rightarrow> nat \<Rightarrow> rat option \<Rightarrow> jsval" where
  "opt_numeric e s None = JNull"
| "opt_numeric e s (Some q) = JStr (numeric_out e s q)"

text \<open>\<open>RETURNING id, email, first_name, last_name, created_at\<close>.\<close>

definition user_returning :: "user_row \<Rightarrow> jsval" where
  "user_returning u = JObj
     [(''id'', JNum (of_int (u_id u))), (''email'', JStr (u_email u)),
      (''first_name'', JStr (u_first_name u)), (''last_name'', JStr (u_last_name u)),
      (''created_at'', JDate (u_created_at u))]"

text \<open>\<open>SELECT * FROM users\<close>.\<close>

definition user_star :: "user_row \<Rightarrow> jsval" where
  "user_star u = JObj
     [(''id'', JNum (of_int (u_id u))), (''email'', JStr (u_email u)),
      (''first_name'', JStr (u_first_name u)), (''last_name'', JStr (u_last_name u)),
      (''password'', JStr (u_password u)), (''created_at'', JDate (u_created_at u)),
      (''last_login'', opt_date (u_last_login u)), (''settings'', u_settings u)]"

text \<open>\<open>SELECT id, email, first_name, last_name, created_at, last_login, settings\<close>.\<close>

definition user_profile :: "user_row \<Rightarrow> jsval" where
  "user_profile u = JObj
     [(''id'', JNum (of_int (u_id u))), (''email'', JStr (u_email u)),
      (''first_name'', JStr (u_first_name u)), (''last_name'', JStr (u_last_name u)),
      (''created_at'', JDate (u_created_at u)),
      (''last_login'', opt_date (u_last_login u)), (''settings'', u_settings u)]"

text \<open>\<open>SELECT * FROM energy_readings\<close>.\<close>

definition reading_star :: "env \<Rightarrow> reading_row \<Rightarrow> jsval" where
  "reading_star e r = JObj
     [(''id'', JNum (of_int (r_id r))), (''user_id'', opt_int (r_user_id r)),
      (''power_w'', opt_numeric e 2 (r_power_w r)),
      (''energy_wh'', opt_numeric e 2 (r_energy_wh r)),
      (''cost'', opt_numeric e 4 (r_cost r)), (''timestamp'', JDate (r_timestamp r))]"

subsection \<open>The six statements\<close>

text \<open>The DETAIL line of a violation of the UNIQUE constraint on \<open>users.email\<close>.\<close>

definition unique_detail :: "string \<Rightarrow> string" where
  "unique_detail em = ''Key (email)=('' @ em @ '') already exists.''"

text \<open>
  \<open>INSERT INTO users (email, first_name, last_name, password) VALUES ($1, $2, $3, $4)
  RETURNING id, email, first_name, last_name, created_at\<close>. The four columns are
  \<open>VARCHAR(255)\<close>, \<open>VARCHAR(100)\<close>, \<open>VARCHAR(100)\<close>, \<open>VARCHAR(255)\<close>, all NOT NULL;
  \<open>email\<close> is UNIQUE; \<open>id\<close> is taken from the sequence, which a rejected duplicate
  has used up as well; \<open>created_at\<close> defaults to the store's clock, \<open>last_login\<close> to
  NULL, \<open>settings\<close> to \<open>{}\<close>. The values are checked as text and against their
  columns first, then the NOT NULL constraints, then the UNIQUE constraint.
\<close>

definition insert_user ::
  "env \<Rightarrow> jsval \<Rightarrow> jsval \<Rightarrow> jsval \<Rightarrow> jsval \<Rightarrow> db \<Rightarrow> (js_error + jsval list) \<times> db" where
  "insert_user e email first_name last_name password d =
     (case store_fault e InsertUser of
        Some err \<Rightarrow> (Inl err, d)
      | None \<Rightarrow>
     (case coerce_varchar 255 (prepareValue e email) of
        Inl err \<Rightarrow> (Inl err, d)
      | Inr em \<Rightarrow>
     (case coerce_varchar 100 (prepareValue e first_name) of
        Inl err \<Rightarrow> (Inl err, d)
      | Inr fname \<Rightarrow>
     (case coerce_varchar 100 (prepareValue e last_name) of
        Inl err \<Rightarrow> (Inl err, d)
      | Inr lname \<Rightarrow>
     (case coerce_varchar 255 (prepareValue e password) of
        Inl err \<Rightarrow> (Inl err, d)
      | Inr pw \<Rightarrow>
     (case (em, fname, lname, pw) of
        (Some em', Some fname', Some lname', Some pw') \<Rightarrow>
          (let d1 = d\<lparr>users_id_seq := users_id_seq d + 1\<rparr>;
               row = \<lparr>u_id = users_id_seq d, u_email = em', u_first_name = fname',
                      u_last_name = lname', u_password = pw',
                      u_created_at = current_timestamp e, u_last_login = None,
                      u_settings = JObj []\<rparr>
           in if em' \<in> set (map u_email (users d))
              then (Inl (DatabaseError (Some (unique_detail em'))), d1)
              else (Inr [user_returning row], d1\<lparr>users := users d @ [row]\<rparr>))
      | _ \<Rightarrow> (Inl (pg_error e not_null_violation), d)))))))"

text \<open>
  \<open>SELECT * FROM users WHERE email = $1\<close>. The parameter is compared with the stored
  emails. A parameter that contains U+0000 equals no stored email (\<open>insert_user\<close>
  stores none); that the store refuses it instead of finding no row is not modelled,
  and a property about unknown emails says that the email is free of U+0000.
\<close>

definition select_user_by_email :: "env \<Rightarrow> jsval \<Rightarrow> db \<Rightarrow> js_error + jsval list" where
  "select_user_by_email e email d =
     (case store_fault e SelectUserByEmail of
        Some err \<Rightarrow> Inl err
      | None \<Rightarrow>
          (case prepareValue e email of
             None \<Rightarrow> Inr []
           | Some em \<Rightarrow> Inr (map user_star (filter (\<lambda>u. u_email u = em) (users d)))))"

text \<open>\<open>UPDATE users SET last_login = CURRENT_TIMESTAMP WHERE id = $1\<close>.\<close>

definition update_last_login :: "env \<Rightarrow> jsval \<Rightarrow> db \<Rightarrow> (js_error + jsval list) \<times> db" where
  "update_last_login e idv d =
     (case store_fault e UpdateLastLogin of
        Some err \<Rightarrow> (Inl err, d)
      | None \<Rightarrow>
          (case pg_integer e idv of
             Inl err \<Rightarrow> (Inl err, d)
           | Inr None \<Rightarrow> (Inr [], d)
           | Inr (Some i) \<Rightarrow>
               (Inr [], d\<lparr>users :=
                  map (\<lambda>u. if u_id u = i then u\<lparr>u_last_login := Some (current_timestamp e)\<rparr> else u)
                    (users d)\<rparr>)))"

text \<open>
  \<open>SELECT id, email, first_name, last_name, created_at, last_login, settings
  FROM users WHERE id = $1\<close>.
\<close>

definition select_profile :: "env \<Rightarrow> jsval \<Rightarrow> db \<Rightarrow> js_error + jsval list" where
  "select_profile e idv d =
     (case store_fault e SelectProfile of
        Some err \<Rightarrow> Inl err
      | None \<Rightarrow>
          (case pg_integer e idv of
             Inl err \<Rightarrow> Inl err
           | Inr None \<Rightarrow> Inr []
           | Inr (Some i) \<Rightarrow> Inr (map user_profile (filter (\<lambda>u. u_id u = i) (users d)))))"

text \<open>
  \<open>INSERT INTO energy_readings (user_id, power_w, energy_wh, cost) VALUES ($1, $2, $3, $4)\<close>.
  \<open>user_id\<close> is \<open>INTEGER REFERENCES users(id)\<close>, \<open>power_w\<close> and \<open>energy_wh\<close> are
  \<open>DECIMAL(10,2)\<close>, \<open>cost\<close> is \<open>DECIMAL(10,4)\<close>, all four nullable; \<open>timestamp\<close>
  defaults to the store's clock.
\<close>

definition insert_reading ::
  "env \<Rightarrow> jsval \<Rightarrow> jsval \<Rightarrow> jsval \<Rightarrow> jsval \<Rightarrow> db \<Rightarrow> (js_error + jsval list) \<times> db" where
  "insert_reading e user_id power_v energy_v cost_v d =
     (case store_fault e InsertReading of
        Some err \<Rightarrow> (Inl err, d)
      | None \<Rightarrow>
     (case pg_integer e user_id of
        Inl err \<Rightarrow> (Inl err, d)
      | Inr uid \<Rightarrow>
     (case pg_numeric e 10 2 power_v of
        Inl err \<Rightarrow> (Inl err, d)
      | Inr pw \<Rightarrow>
     (case pg_numeric e 10 2 energy_v of
        Inl err \<Rightarrow> (Inl err, d)
      | Inr en \<Rightarrow>
     (case pg_numeric e 10 4 cost_v of
        Inl err \<Rightarrow> (Inl err, d)
      | Inr co \<Rightarrow>
          (let d1 = d\<lparr>energy_readings_id_seq := energy_readings_id_seq d + 1\<rparr>;
               row = \<lparr>r_id = energy_readings_id_seq d, r_user_id = uid, r_power_w = pw,
                      r_energy_wh = en, r_cost = co, r_timestamp = current_timestamp e\<rparr>
           in if (case uid of None \<Rightarrow> True | Some i \<Rightarrow> i \<in> set (map u_id (users d)))
              then (Inr [], d1\<lparr>energy_readings := energy_readings d @ [row]\<rparr>)
              else (Inl (pg_error e foreign_key_violation), d1)))))))"

text \<open>
  \<open>SELECT * FROM energy_readings WHERE user_id = $1 ORDER BY timestamp DESC LIMIT 100\<close>.
  The rows of the user are put in descending order of timestamp (\<open>order_readings\<close>)
  and the first 100 are returned. Among rows of one timestamp SQL leaves the order, and
  with it the choice of the rows at the cut, to the store: they come in ascending
  \<open>tie_rank\<close>, which is any order the store may choose (both sorts are stable).
\<close>

definition order_readings :: "env \<Rightarrow> int \<Rightarrow> db \<Rightarrow> reading_row list" where
  "order_readings e i d =
     sort_key (\<lambda>r. - int (r_timestamp r))
       (sort_key (tie_rank e) (filter (\<lambda>r. r_user_id r = Some i) (energy_readings d)))"

definition list_readings :: "env \<Rightarrow> int \<Rightarrow> db \<Rightarrow> reading_row list" where
  "list_readings e i d = take 100 (order_readings e i d)"

definition select_readings :: "env \<Rightarrow> jsval \<Rightarrow> db \<Rightarrow> js_error + jsval list" where
  "select_readings e idv d =
     (case store_fault e SelectReadings of
        Some err \<Rightarrow> Inl err
      | None \<Rightarrow>
          (case pg_integer e idv of
             Inl err \<Rightarrow> Inl err
           | Inr None \<Rightarrow> Inr []
           | Inr (Some i) \<Rightarrow> Inr (map (reading_star e) (list_readings e i d))))"

subsection \<open>Requests and responses\<close>

text \<open>
  \<open>req_route\<close> is the route Express matched, \<open>req_headers\<close> the headers under their
  lower-case names, \<open>req_body\<close> what \<open>express.json()\<close> left in \<open>req.body\<close>,
  \<open>req_user\<close> the property the middleware sets (\<open>undefined\<close> before). A request
  whose body \<open>express.json()\<close> refuses to parse is answered by Express before any
  route and is not a request of this model.
\<close>

datatype route =
    PostRegister | PostLogin | GetProfile | PostReadings | GetReadings
  | GetHealth | GetRoot | NoRoute

record request =
  req_route :: route
  req_headers :: "(string \<times> string) list"
  req_body :: jsval
  req_user :: jsval

record response =
  res_status :: nat
  res_body :: jsval

type_synonym handler = "request \<Rightarrow> db \<Rightarrow> response \<times> db"

text \<open>\<open>res.status(n).json({ success: false, message: m })\<close>.\<close>

definition failure :: "nat \<Rightarrow> string \<Rightarrow> response" where
  "failure n m =
     \<lparr>res_status = n, res_body = JObj [(''success'', JBool False), (''message'', JStr m)]\<rparr>"

text \<open>\<open>res.json(body)\<close>: status 200.\<close>

definition json :: "jsval \<Rightarrow> response" where
  "json b = \<lparr>res_status = 200, res_body = b\<rparr>"

subsection \<open>Authentication middleware\<close>

text \<open>
  \<open>const token = authHeader && authHeader.split(' ')[1]\<close>; then \<open>!token\<close> holds for
  a missing header, an empty header, a header with no space, and an empty second piece.
  The first piece of the header is not looked at.
\<close>

definition extract_token :: "request \<Rightarrow> string option" where
  "extract_token req =
     (case map_of (req_headers req) ''authorization'' of
        None \<Rightarrow> None
      | Some authHeader \<Rightarrow>
          if authHeader = [] then None
          else (case index (split CHR '' '' authHeader) 1 of
                  None \<Rightarrow> None
                | Some token \<Rightarrow> if token = [] then None else Some token))"

definition authenticateToken :: "env \<Rightarrow> request \<Rightarrow> handler \<Rightarrow> db \<Rightarrow> response \<times> db" where
  "authenticateToken e req next d =
     (case extract_token req of
        None \<Rightarrow> (failure 401 ''Access token required'', d)
      | Some token \<Rightarrow>
          (case jwt_verify e token (jwt_secret e) of
             Inl err \<Rightarrow> (failure 403 ''Invalid or expired token'', d)
           | Inr user \<Rightarrow> next (req\<lparr>req_user := user\<rparr>) d))"

subsection \<open>Route handlers\<close>

text \<open>
  Each handler is its \<open>try\<close> block, whose result is the response sent or the error
  thrown, and its \<open>catch\<close> block. A change the store made before the throw stays.
\<close>

definition register_try :: "env \<Rightarrow> request \<Rightarrow> db \<Rightarrow> (js_error + response) \<times> db" where
  "register_try e req d =
     (if \<not> object_coercible (req_body req) then (Inl TypeError, d)
      else
        (let email = field (req_body req) ''email'';
             firstName = field (req_body req) ''firstName'';
             lastName = field (req_body req) ''lastName'';
             password = field (req_body req) ''password''
         in if \<not> truthy email \<or> \<not> truthy firstName \<or> \<not> truthy lastName \<or> \<not> truthy password
            then (Inr (failure 400 ''All fields are required''), d)
            else
              (case bcrypt_hash e password 10 of
                 Inl err \<Rightarrow> (Inl err, d)
               | Inr hashedPassword \<Rightarrow>
                   (case insert_user e email firstName lastName (JStr hashedPassword) d of
                      (Inl err, d') \<Rightarrow> (Inl err, d')
                    | (Inr rows, d') \<Rightarrow>
                        (case get_prop (rows0 rows) ''id'' of
                           Inl err \<Rightarrow> (Inl err, d')
                         | Inr idv \<Rightarrow>
                             (let token = jwt_sign e [(''id'', idv), (''email'', email)]
                                            (jwt_secret e) seven_days
                              in (Inr (json (JObj
                                    [(''success'', JBool True),
                                     (''message'', JStr ''Registration successful''),
                                     (''user'', rows0 rows),
                                     (''token'', JStr token)])), d')))))))"

text \<open>\<open>err.detail || 'Registration failed'\<close>.\<close>

fun detail_or :: "string option \<Rightarrow> string \<Rightarrow> string" where
  "detail_or None m = m"
| "detail_or (Some t) m = (if t = [] then m else t)"

definition register :: "env \<Rightarrow> handler" where
  "register e req d =
     (case register_try e req d of
        (Inl err, d') \<Rightarrow> (failure 400 (detail_or (err_detail err) ''Registration failed''), d')
      | (Inr res, d') \<Rightarrow> (res, d'))"

definition login_try :: "env \<Rightarrow> request \<Rightarrow> db \<Rightarrow> (js_error + response) \<times> db" where
  "login_try e req d =
     (if \<not> object_coercible (req_body req) then (Inl TypeError, d)
      else
        (let email = field (req_body req) ''email'';
             password = field (req_body req) ''password''
         in case select_user_by_email e email d of
              Inl err \<Rightarrow> (Inl err, d)
            | Inr rows \<Rightarrow>
                if length rows = 0 then (Inr (failure 401 ''Invalid credentials''), d)
                else
                  (let user = rows0 rows
                   in case bcrypt_compare e password (field user ''password'') of
                        Inl err \<Rightarrow> (Inl err, d)
                      | Inr validPassword \<Rightarrow>
                          if \<not> validPassword then (Inr (failure 401 ''Invalid credentials''), d)
                          else
                            (case update_last_login e (field user ''id'') d of
                               (Inl err, d') \<Rightarrow> (Inl err, d')
                             | (Inr res, d') \<Rightarrow>
                                 (let token = jwt_sign e
                                        [(''id'', field user ''id''), (''email'', field user ''email'')]
                                        (jwt_secret e) seven_days
                                  in (Inr (json (JObj
                                        [(''success'', JBool True),
                                         (''message'', JStr ''Login successful''),
                                         (''user'', delete_prop user ''password''),
                                         (''token'', JStr token)])), d'))))))"

definition login :: "env \<Rightarrow> handler" where
  "login e req d =
     (case login_try e req d of
        (Inl err, d') \<Rightarrow> (failure 500 ''Login failed'', d')
      | (Inr res, d') \<Rightarrow> (res, d'))"

definition profile_try :: "env \<Rightarrow> request \<Rightarrow> db \<Rightarrow> (js_error + response) \<times> db" where
  "profile_try e req d =
     (case get_prop (req_user req) ''id'' of
        Inl err \<Rightarrow> (Inl err, d)
      | Inr idv \<Rightarrow>
          (case select_profile e idv d of
             Inl err \<Rightarrow> (Inl err, d)
           | Inr rows \<Rightarrow>
               (Inr (json (JObj [(''success'', JBool True), (''user'', rows0 rows)])), d)))"

definition profile :: "env \<Rightarrow> handler" where
  "profile e req d =
     (case profile_try e req d of
        (Inl err, d') \<Rightarrow> (failure 500 ''Failed to fetch profile'', d')
      | (Inr res, d') \<Rightarrow> (res, d'))"

definition post_readings_try :: "env \<Rightarrow> request \<Rightarrow> db \<Rightarrow> (js_error + response) \<times> db" where
  "post_readings_try e req d =
     (if \<not> object_coercible (req_body req) then (Inl TypeError, d)
      else
        (let power_v = field (req_body req) ''power'';
             energy_v = field (req_body req) ''energy'';
             cost_v = field (req_body req) ''cost''
         in case get_prop (req_user req) ''id'' of
              Inl err \<Rightarrow> (Inl err, d)
            | Inr idv \<Rightarrow>
                (case insert_reading e idv power_v energy_v cost_v d of
                   (Inl err, d') \<Rightarrow> (Inl err, d')
                 | (Inr res, d') \<Rightarrow>
                     (Inr (json (JObj [(''success'', JBool True),
                                       (''message'', JStr ''Reading saved'')])), d'))))"

definition post_readings :: "env \<Rightarrow> handler" where
  "post_readings e req d =
     (case post_readings_try e req d of
        (Inl err, d') \<Rightarrow> (failure 500 ''Failed to save reading'', d')
      | (Inr res, d') \<Rightarrow> (res, d'))"

definition get_readings_try :: "env \<Rightarrow> request \<Rightarrow> db \<Rightarrow> (js_error + response) \<times> db" where
  "get_readings_try e req d =
     (case get_prop (req_user req) ''id'' of
        Inl err \<Rightarrow> (Inl err, d)
      | Inr idv \<Rightarrow>
          (case select_readings e idv d of
             Inl err \<Rightarrow> (Inl err, d)
           | Inr rows \<Rightarrow>
               (Inr (json (JObj [(''success'', JBool True), (''readings'', JArr rows)])), d)))"

definition get_readings :: "env \<Rightarrow> handler" where
  "get_readings e req d =
     (case get_readings_try e req d of
        (Inl err, d') \<Rightarrow> (failure 500 ''Failed to fetch readings'', d')
      | (Inr res, d') \<Rightarrow> (res, d'))"

definition health :: "env \<Rightarrow> handler" where
  "health e req d =
     (json (JObj [(''status'', JStr ''healthy''), (''service'', JStr ''Energy Monitor API''),
                  (''version'', JStr ''1.0.0''),
                  (''timestamp'', JStr (toISOString e (date_now e)))]), d)"

definition root :: "env \<Rightarrow> handler" where
  "root e req d =
     (json (JObj [(''message'', JStr ''Smart Energy Monitor API''),
                  (''endpoints'', JObj
                     [(''register'', JStr ''POST /api/register''),
                      (''login'', JStr ''POST /api/login''),
                      (''profile'', JStr ''GET /api/profile''),
                      (''readings'', JStr ''GET /api/readings''),
                      (''submit'', JStr ''POST /api/readings''),
                      (''health'', JStr ''GET /health'')])]), d)"

subsection \<open>The application\<close>

text \<open>
  The routes as registered on \<open>app\<close>; the three protected ones run
  \<open>authenticateToken\<close> first. A request that matches no route gets the 404 of Express,
  whose body is not JSON.
\<close>

fun protected :: "route \<Rightarrow> bool" where
  "protected GetProfile = True"
| "protected PostReadings = True"
| "protected GetReadings = True"
| "protected r = False"

fun handler_of :: "env \<Rightarrow> route \<Rightarrow> handler" where
  "handler_of e PostRegister = register e"
| "handler_of e PostLogin = login e"
| "handler_of e GetProfile = profile e"
| "handler_of e PostReadings = post_readings e"
| "handler_of e GetReadings = get_readings e"
| "handler_of e GetHealth = health e"
| "handler_of e GetRoot = root e"
| "handler_of e NoRoute = (\<lambda>req d. (\<lparr>res_status = 404, res_body = JUndefined\<rparr>, d))"

definition app :: "env \<Rightarrow> handler" where
  "app e req d =
     (if protected (req_route req) then authenticateToken e req (handler_of e (req_route req)) d
      else handler_of e (req_route req) req d)"

text \<open>A sequence of requests, each with its environment, served one after the other.\<close>

fun serve :: "(env \<times> request) list \<Rightarrow> db \<Rightarrow> db" where
  "serve [] d = d"
| "serve (er # ers) d = serve ers (snd (app (fst er) (snd er) d))"

subsection \<open>What the properties speak about\<close>

text \<open>The names of the properties of the \<open>user\<close> object in a response body.\<close>

definition user_keys :: "response \<Rightarrow> string list" where
  "user_keys res = keys (field (res_body res) ''user'')"

definition returning_columns :: "string list" where
  "returning_columns = [''id'', ''email'', ''first_name'', ''last_name'', ''created_at'']"

definition profile_columns :: "string list" where
  "profile_columns =
     [''id'', ''email'', ''first_name'', ''last_name'', ''created_at'', ''last_login'', ''settings'']"

text \<open>The email column of the users table, in row order.\<close>

definition emails :: "db \<Rightarrow> string list" where
  "emails d = map u_email (users d)"

text \<open>
  What every request leaves of the email column: the rows that were there keep their
  emails and their order, rows are only added, and a column without duplicates stays so.
\<close>

definition extends :: "db \<Rightarrow> db \<Rightarrow> bool" where
  "extends d d' = ((\<exists>new. emails d' = emails d @ new) \<and> (distinct (emails d) \<longrightarrow> distinct (emails d')))"

subsection \<open>A sample environment, store and requests\<close>

text \<open>
  Concrete values on which the theorems below are run: a store that never fails, a
  stand-in for the hash and the signature, and a serialisation that knows the one token
  issued to the sample user.
\<close>

fun str_of :: "jsval \<Rightarrow> string" where
  "str_of (JStr s) = s"
| "str_of v = []"

definition sample_token :: jwt where
  "sample_token =
     \<lparr>jwt_payload = JObj [(''id'', JNum 1), (''email'', JStr ''a@b.com''),
                           (''iat'', JNum 1000), (''exp'', JNum 605800)],
      jwt_signature = ''energy-monitor-secret-key-2024/a@b.com''\<rparr>"

text \<open>The decimals of the sample readings as the store writes them.\<close>

definition sample_numeric_out :: "nat \<Rightarrow> rat \<Rightarrow> string" where
  "sample_numeric_out s q =
     (if s = 2 \<and> q = 100 then ''100.00''
      else if s = 2 \<and> q = 90 then ''90.00''
      else if s = 2 \<and> q = 5 then ''5.00''
      else if s = 4 \<and> q = 2 then ''2.0000''
      else ''?'')"

definition sample_env :: env where
  "sample_env =
     \<lparr>JWT_SECRET = None, date_now = 1000000, current_timestamp = 50,
      store_fault = (\<lambda>q. None),
      bcrypt_hash_fn = (\<lambda>s rounds. ''$2a$'' @ s),
      bcrypt_compare_fn = (\<lambda>s h. h = ''$2a$'' @ s),
      hmac = (\<lambda>k p. k @ ''/'' @ str_of (field p ''email'')),
      jwt_encode = (\<lambda>t. ''h.p.s''),
      jwt_decode = (\<lambda>s. if s = ''h.p.s'' then Some sample_token else None),
      pg_text = (\<lambda>v. ''?''),
      int4in = (\<lambda>s. None),
      numeric_in = (\<lambda>s. None),
      numeric_out = sample_numeric_out,
      pg_detail = (\<lambda>c. None),
      tie_rank = (\<lambda>r. nat (r_id r)),
      toISOString = (\<lambda>t. ''t'')\<rparr>"

text \<open>Two ways for the store to fail: on the UPDATE of login only, and on every statement.\<close>

definition update_fails :: "query \<Rightarrow> js_error option" where
  "update_fails q = (if q = UpdateLastLogin then Some (DatabaseError None) else None)"

definition store_down :: "query \<Rightarrow> js_error option" where
  "store_down q = Some (DatabaseError (Some ''Process 1 waits for ShareLock on transaction 2.''))"

text \<open>The store after the sample user has registered, without and with a reading.\<close>

definition sample_user :: user_row where
  "sample_user =
     \<lparr>u_id = 1, u_email = ''a@b.com'', u_first_name = ''A'', u_last_name = ''B'',
      u_password = ''$2a$pw123456'', u_created_at = 50, u_last_login = None,
      u_settings = JObj []\<rparr>"

definition sample_db :: db where
  "sample_db =
     \<lparr>users = [sample_user], energy_readings = [], users_id_seq = 2,
      energy_readings_id_seq = 1\<rparr>"

definition old_reading :: reading_row where
  "old_reading =
     \<lparr>r_id = 1, r_user_id = Some 1, r_power_w = Some 90, r_energy_wh = None, r_cost = None,
      r_timestamp = 40\<rparr>"

definition sample_db_readings :: db where
  "sample_db_readings =
     \<lparr>users = [sample_user], energy_readings = [old_reading], users_id_seq = 2,
      energy_readings_id_seq = 2\<rparr>"

text \<open>
  A store whose one reading carries a timestamp later than the clock of the sample
  environment, as after the store's clock was set back.
\<close>

definition late_reading :: reading_row where
  "late_reading =
     \<lparr>r_id = 1, r_user_id = Some 1, r_power_w = Some 90, r_energy_wh = None, r_cost = None,
      r_timestamp = 60\<rparr>"

definition sample_db_clock_back :: db where
  "sample_db_clock_back =
     \<lparr>users = [sample_user], energy_readings = [late_reading], users_id_seq = 2,
      energy_readings_id_seq = 2\<rparr>"

text \<open>A store with three readings of the sample user that carry one timestamp.\<close>

definition tied_reading :: "int \<Rightarrow> reading_row" where
  "tied_reading i =
     \<lparr>r_id = i, r_user_id = Some 1, r_power_w = None, r_energy_wh = None, r_cost = None,
      r_timestamp = 50\<rparr>"

definition sample_db_ties :: db where
  "sample_db_ties =
     \<lparr>users = [sample_user],
      energy_readings = [tied_reading 1, tied_reading 2, tied_reading 3], users_id_seq = 2,
      energy_readings_id_seq = 4\<rparr>"

text \<open>The rows that the two sample submissions below add.\<close>

definition new_reading :: reading_row where
  "new_reading =
     \<lparr>r_id = 2, r_user_id = Some 1, r_power_w = Some 100, r_energy_wh = Some 5, r_cost = Some 2,
      r_timestamp = 50\<rparr>"


text \<open>Requests as they reach the application, and the header carrying the sample token.\<close>

definition request0 :: "route \<Rightarrow> (string \<times> string) list \<Rightarrow> jsval \<Rightarrow> request" where
  "request0 r hs b = \<lparr>req_route = r, req_headers = hs, req_body = b, req_user = JUndefined\<rparr>"

definition bearer :: "(string \<times> string) list" where
  "bearer = [(''authorization'', ''Bearer h.p.s'')]"

definition register_request :: request where
  "register_request =
     request0 PostRegister []
       (JObj [(''email'', JStr ''a@b.com''), (''firstName'', JStr ''A''),
              (''lastName'', JStr ''B''), (''password'', JStr ''pw123456'')])"

definition long_name_request :: request where
  "long_name_request =
     request0 PostRegister []
       (JObj [(''email'', JStr ''c@d.com''), (''firstName'', JStr (replicate 101 CHR ''a'')),
              (''lastName'', JStr ''B''), (''password'', JStr ''pw123456'')])"

text \<open>A registration whose first name is the two characters \<open>A\<close> and U+0000.\<close>

definition nul_name_request :: request where
  "nul_name_request =
     request0 PostRegister []
       (JObj [(''email'', JStr ''c@d.com''), (''firstName'', JStr [CHR ''A'', CHR 0x00]),
              (''lastName'', JStr ''B''), (''password'', JStr ''pw123456'')])"

definition login_request :: request where
  "login_request =
     request0 PostLogin [] (JObj [(''email'', JStr ''a@b.com''), (''password'', JStr ''pw123456'')])"

definition login_without_password :: "string \<Rightarrow> request" where
  "login_without_password em = request0 PostLogin [] (JObj [(''email'', JStr em)])"

text \<open>A submission as the handler sees it behind the gate, and one with an empty body.\<close>

definition reading_request :: request where
  "reading_request =
     \<lparr>req_route = PostReadings, req_headers = bearer,
      req_body = JObj [(''power'', JNum 100), (''energy'', JNum 5), (''cost'', JNum 2)],
      req_user = jwt_payload sample_token\<rparr>"


section \<open>Properties\<close>

subsection \<open>The sample values\<close>

lemma extract_bearer: "extract_token (request0 r bearer b) = Some ''h.p.s''"
  by (simp add: extract_token_def request0_def bearer_def index_def)

lemma sample_verify:
  "jwt_verify sample_env ''h.p.s'' (jwt_secret sample_env) = Inr (jwt_payload sample_token)"
  by (simp add: jwt_verify_def sample_env_def sample_token_def jwt_secret_def clock_timestamp_def)

subsection \<open>The authentication gate\<close>

text \<open>
  C1. On each of the three protected routes (GET /api/profile, POST /api/readings,
  GET /api/readings): when no token comes out of the Authorization header, the response
  is 401 "Access token required", the store is untouched and the handler is not invoked
  (whatever stands in its place as \<open>next\<close>, the outcome is the same); when a token
  comes out and verification fails, the response is 403 "Invalid or expired token",
  again without the handler; otherwise the handler runs on the request with the decoded
  claims in \<open>req.user\<close>. The token is what the code extracts: the second piece of the
  header split at spaces.
\<close>

theorem authenticateToken_gate:
  assumes "protected (req_route req)"
  shows "(extract_token req = None \<longrightarrow>
            app e req d = (failure 401 ''Access token required'', d)
          \<and> (\<forall>next. authenticateToken e req next d = (failure 401 ''Access token required'', d)))
       \<and> (\<forall>token err. extract_token req = Some token
            \<and> jwt_verify e token (jwt_secret e) = Inl err \<longrightarrow>
            app e req d = (failure 403 ''Invalid or expired token'', d)
          \<and> (\<forall>next. authenticateToken e req next d = (failure 403 ''Invalid or expired token'', d)))
       \<and> (\<forall>token claims. extract_token req = Some token
            \<and> jwt_verify e token (jwt_secret e) = Inr claims \<longrightarrow>
            app e req d = handler_of e (req_route req) (req\<lparr>req_user := claims\<rparr>) d)"
  using assms by (simp add: app_def authenticateToken_def)

theorem authenticateToken_gate_witness:
  "app sample_env (request0 GetProfile [] JUndefined) sample_db
     = (failure 401 ''Access token required'', sample_db)
   \<and> app (sample_env\<lparr>JWT_SECRET := Some ''other''\<rparr>) (request0 PostReadings bearer JUndefined) sample_db
     = (failure 403 ''Invalid or expired token'', sample_db)
   \<and> app sample_env (request0 GetReadings bearer JUndefined) sample_db
     = get_readings sample_env
         ((request0 GetReadings bearer JUndefined)\<lparr>req_user := jwt_payload sample_token\<rparr>) sample_db"
proof -
  have 1: "extract_token (request0 GetProfile [] JUndefined) = None"
    by (simp add: extract_token_def request0_def)
  have 2: "jwt_verify (sample_env\<lparr>JWT_SECRET := Some ''other''\<rparr>) ''h.p.s''
             (jwt_secret (sample_env\<lparr>JWT_SECRET := Some ''other''\<rparr>)) = Inl JsonWebTokenError"
    by (simp add: jwt_verify_def sample_env_def sample_token_def jwt_secret_def)
  show ?thesis
    using authenticateToken_gate [of "request0 GetProfile [] JUndefined" sample_env sample_db]
          authenticateToken_gate [of "request0 PostReadings bearer JUndefined"
             "sample_env\<lparr>JWT_SECRET := Some ''other''\<rparr>" sample_db]
          authenticateToken_gate [of "request0 GetReadings bearer JUndefined" sample_env sample_db]
          1 2 extract_bearer sample_verify
    by (simp add: request0_def)
qed

subsection \<open>Expiry and signature\<close>

lemma seven_days_elapsed:
  assumes "date_now e0 + 7 * 24 * 60 * 60 * 1000 < date_now e"
  shows "clock_timestamp e0 + seven_days \<le> clock_timestamp e"
proof -
  have "(date_now e0 + 604800 * 1000) div 1000 \<le> date_now e div 1000"
    using assms by (intro div_le_mono) simp
  then show ?thesis
    by (simp add: clock_timestamp_def seven_days_def)
qed

lemma issued_token_expires:
  assumes "jwt_decode e token = Some (jwt_token e0 [(''id'', idv), (''email'', email)] secret seven_days)"
    and "date_now e0 + 7 * 24 * 60 * 60 * 1000 < date_now e"
  shows "\<exists>err. jwt_verify e token (jwt_secret e) = Inl err"
proof -
  have "(of_nat (clock_timestamp e0 + seven_days) :: rat) \<le> of_nat (clock_timestamp e)"
    using seven_days_elapsed [OF assms(2)] by (simp only: of_nat_le_iff)
  then show ?thesis
    using assms(1) by (simp add: jwt_verify_def jwt_token_def Let_def)
qed

lemma bad_signature_fails:
  assumes "jwt_decode e token = Some t"
    and "jwt_signature t \<noteq> hmac e (jwt_secret e) (jwt_payload t)"
  shows "jwt_verify e token (jwt_secret e) = Inl JsonWebTokenError"
  using assms by (simp add: jwt_verify_def)

text \<open>
  C2. A token that \<open>jwt.sign\<close> issued for an id and an email with \<open>expiresIn: '7d'\<close>
  is rejected with 403 once more than seven days (in milliseconds of \<open>Date.now()\<close>)
  have passed since it was issued, whether or not its signature is valid; and a token
  whose signature is not the one the signing secret gives its payload is rejected with
  403. In both cases \<open>next\<close> is not called, so nothing of the token reaches
  \<open>req.user\<close>, and on a protected route the response of the application is the 403.
\<close>

theorem stale_or_forged_token_rejected:
  "(\<forall>e0 idv email.
       extract_token req = Some (jwt_sign e0 [(''id'', idv), (''email'', email)] (jwt_secret e0) seven_days)
     \<and> jwt_decode e (jwt_sign e0 [(''id'', idv), (''email'', email)] (jwt_secret e0) seven_days)
         = Some (jwt_token e0 [(''id'', idv), (''email'', email)] (jwt_secret e0) seven_days)
     \<and> date_now e0 + 7 * 24 * 60 * 60 * 1000 < date_now e
     \<longrightarrow> authenticateToken e req nxt d = (failure 403 ''Invalid or expired token'', d)
       \<and> (protected (req_route req) \<longrightarrow> app e req d = (failure 403 ''Invalid or expired token'', d)))
 \<and> (\<forall>token t.
       extract_token req = Some token \<and> jwt_decode e token = Some t
     \<and> jwt_signature t \<noteq> hmac e (jwt_secret e) (jwt_payload t)
     \<longrightarrow> authenticateToken e req nxt d = (failure 403 ''Invalid or expired token'', d)
       \<and> (protected (req_route req) \<longrightarrow> app e req d = (failure 403 ''Invalid or expired token'', d)))"
proof (intro conjI allI impI; (elim conjE)?)
  fix e0 idv email
  assume x: "extract_token req = Some (jwt_sign e0 [(''id'', idv), (''email'', email)] (jwt_secret e0) seven_days)"
    and dec: "jwt_decode e (jwt_sign e0 [(''id'', idv), (''email'', email)] (jwt_secret e0) seven_days)
         = Some (jwt_token e0 [(''id'', idv), (''email'', email)] (jwt_secret e0) seven_days)"
    and late: "date_now e0 + 7 * 24 * 60 * 60 * 1000 < date_now e"
  from issued_token_expires [OF dec late] obtain err where
    "jwt_verify e (jwt_sign e0 [(''id'', idv), (''email'', email)] (jwt_secret e0) seven_days) (jwt_secret e) = Inl err"
    by blast
  with x show "authenticateToken e req nxt d = (failure 403 ''Invalid or expired token'', d)"
    by (simp add: authenticateToken_def)
  with x \<open>jwt_verify e _ _ = Inl err\<close>
  show "app e req d = (failure 403 ''Invalid or expired token'', d)" if "protected (req_route req)"
    using that by (simp add: app_def authenticateToken_def)
next
  fix token t
  assume x: "extract_token req = Some token" and dec: "jwt_decode e token = Some t"
    and sig: "jwt_signature t \<noteq> hmac e (jwt_secret e) (jwt_payload t)"
  from bad_signature_fails [OF dec sig] x
  show "authenticateToken e req nxt d = (failure 403 ''Invalid or expired token'', d)"
    by (simp add: authenticateToken_def)
  from bad_signature_fails [OF dec sig] x
  show "app e req d = (failure 403 ''Invalid or expired token'', d)" if "protected (req_route req)"
    using that by (simp add: app_def authenticateToken_def)
qed


lemma sample_sign:
  "jwt_sign sample_env [(''id'', JNum 1), (''email'', JStr ''a@b.com'')] (jwt_secret sample_env) seven_days
     = ''h.p.s''"
  by (simp add: jwt_sign_def sample_env_def)

lemma sample_jwt_token:
  "jwt_token sample_env [(''id'', JNum 1), (''email'', JStr ''a@b.com'')] (jwt_secret sample_env) seven_days
     = sample_token"
  by (simp add: jwt_token_def sample_env_def sample_token_def jwt_secret_def clock_timestamp_def
      seven_days_def)

theorem stale_or_forged_token_rejected_witness:
  "app (sample_env\<lparr>date_now := 605801001\<rparr>) (request0 GetProfile bearer JUndefined) sample_db
     = (failure 403 ''Invalid or expired token'', sample_db)
   \<and> app (sample_env\<lparr>JWT_SECRET := Some ''other''\<rparr>) (request0 GetProfile bearer JUndefined) sample_db
     = (failure 403 ''Invalid or expired token'', sample_db)"
proof -
  have dec: "jwt_decode (sample_env\<lparr>date_now := 605801001\<rparr>) ''h.p.s'' = Some sample_token"
    by (simp add: sample_env_def)
  have late: "date_now sample_env + 7 * 24 * 60 * 60 * 1000 < date_now (sample_env\<lparr>date_now := 605801001\<rparr>)"
    by (simp add: sample_env_def)
  have a: "app (sample_env\<lparr>date_now := 605801001\<rparr>) (request0 GetProfile bearer JUndefined) sample_db
     = (failure 403 ''Invalid or expired token'', sample_db)"
    using stale_or_forged_token_rejected
      [where req = "request0 GetProfile bearer JUndefined" and e = "sample_env\<lparr>date_now := 605801001\<rparr>"
         and d = sample_db and nxt = "profile sample_env",
       THEN conjunct1, rule_format, where ?e0.0 = sample_env and idv = "JNum 1" and email = "JStr ''a@b.com''"]
      dec late extract_bearer
    by (simp add: sample_sign sample_jwt_token request0_def)
  have dec': "jwt_decode (sample_env\<lparr>JWT_SECRET := Some ''other''\<rparr>) ''h.p.s'' = Some sample_token"
    by (simp add: sample_env_def)
  have sig: "jwt_signature sample_token \<noteq>
     hmac (sample_env\<lparr>JWT_SECRET := Some ''other''\<rparr>) (jwt_secret (sample_env\<lparr>JWT_SECRET := Some ''other''\<rparr>))
       (jwt_payload sample_token)"
    by (simp add: sample_env_def sample_token_def jwt_secret_def)
  have b: "app (sample_env\<lparr>JWT_SECRET := Some ''other''\<rparr>) (request0 GetProfile bearer JUndefined) sample_db
     = (failure 403 ''Invalid or expired token'', sample_db)"
    using stale_or_forged_token_rejected
      [where req = "request0 GetProfile bearer JUndefined" and e = "sample_env\<lparr>JWT_SECRET := Some ''other''\<rparr>"
         and d = sample_db and nxt = "profile sample_env",
       THEN conjunct2, rule_format, where token = "''h.p.s''" and t = sample_token]
      dec' sig extract_bearer
    by (simp add: request0_def)
  from a b show ?thesis by simp
qed

subsection \<open>Registration\<close>

lemma truthy_coercible: "truthy (field b k) \<Longrightarrow> object_coercible b"
  by (cases b) simp_all

lemma truthy_prepareValue: "truthy v \<Longrightarrow> prepareValue e v = Some (param_text e v)"
  by (cases v) simp_all

lemma varchar_fits: "CHR 0x00 \<notin> set s \<Longrightarrow> length s \<le> n \<Longrightarrow> varchar n s = Inr s"
  by (simp add: varchar_def)

lemma varchar_nul: "CHR 0x00 \<in> set s \<Longrightarrow> varchar n s = Inl (DatabaseError None)"
  by (simp add: varchar_def)

lemma insert_user_new:
  assumes "store_fault e InsertUser = None"
    and "truthy email" "truthy first_name" "truthy last_name"
    and "length (param_text e email) \<le> 255" "length (param_text e first_name) \<le> 100"
    and "length (param_text e last_name) \<le> 100" "length h \<le> 255"
    and "CHR 0x00 \<notin> set (param_text e email)" "CHR 0x00 \<notin> set (param_text e first_name)"
    and "CHR 0x00 \<notin> set (param_text e last_name)" "CHR 0x00 \<notin> set h"
    and "param_text e email \<notin> set (map u_email (users d))"
  shows "insert_user e email first_name last_name (JStr h) d =
     (Inr [user_returning
            \<lparr>u_id = users_id_seq d, u_email = param_text e email,
             u_first_name = param_text e first_name, u_last_name = param_text e last_name,
             u_password = h, u_created_at = current_timestamp e, u_last_login = None,
             u_settings = JObj []\<rparr>],
      d\<lparr>users_id_seq := users_id_seq d + 1,
        users := users d @
          [\<lparr>u_id = users_id_seq d, u_email = param_text e email,
             u_first_name = param_text e first_name, u_last_name = param_text e last_name,
             u_password = h, u_created_at = current_timestamp e, u_last_login = None,
             u_settings = JObj []\<rparr>]\<rparr>)"
  using assms by (simp add: insert_user_def truthy_prepareValue varchar_fits Let_def)

lemma verify_issued:
  assumes "jwt_decode ev token = Some (jwt_token e [(''id'', idv), (''email'', email)] secret seven_days)"
    and "hmac ev = hmac e" and "jwt_secret ev = secret"
    and "clock_timestamp ev < clock_timestamp e + seven_days"
  shows "jwt_verify ev token (jwt_secret ev) =
     Inr (JObj [(''id'', idv), (''email'', email), (''iat'', JNum (of_nat (clock_timestamp e))),
                (''exp'', JNum (of_nat (clock_timestamp e + seven_days)))])"
proof -
  have "\<not> (of_nat (clock_timestamp e + seven_days) :: rat) \<le> of_nat (clock_timestamp ev)"
    using assms(4) by (simp only: of_nat_le_iff)
  then show ?thesis
    using assms(1-3) by (simp add: jwt_verify_def jwt_token_def Let_def)
qed

text \<open>
  C3, as amended. A registration request whose four fields are non-empty, whose password
  is a string, whose email, firstName and lastName are in text form at most 255, 100 and
  100 characters long (the columns are \<open>VARCHAR(255)\<close> and \<open>VARCHAR(100)\<close>) and
  free of the character U+0000, whose password hash is at most 255 characters long and
  free of U+0000, whose email is not in the users table, whose id (the next value of
  the sequence) is within the range of \<open>INTEGER\<close> and not in the table, and whose
  INSERT the store does not fail, succeeds: the response is 200 with the new row's id, email, first_name,
  last_name and created_at and a token, and the row is added. Verified under the same
  secret before it expires, the token decodes to the new user's id and the submitted
  email, next to the \<open>iat\<close> and \<open>exp\<close> that signing adds.
\<close>

theorem register_new_email:
  assumes route: "req_route req = PostRegister"
    and present: "truthy (field (req_body req) ''email'')"
      "truthy (field (req_body req) ''firstName'')"
      "truthy (field (req_body req) ''lastName'')"
    and password: "field (req_body req) ''password'' = JStr pw" "pw \<noteq> []"
    and fits: "length (param_text e (field (req_body req) ''email'')) \<le> 255"
      "length (param_text e (field (req_body req) ''firstName'')) \<le> 100"
      "length (param_text e (field (req_body req) ''lastName'')) \<le> 100"
      "length (bcrypt_hash_fn e pw 10) \<le> 255"
    and clean: "CHR 0x00 \<notin> set (param_text e (field (req_body req) ''email''))"
      "CHR 0x00 \<notin> set (param_text e (field (req_body req) ''firstName''))"
      "CHR 0x00 \<notin> set (param_text e (field (req_body req) ''lastName''))"
      "CHR 0x00 \<notin> set (bcrypt_hash_fn e pw 10)"
    and new: "param_text e (field (req_body req) ''email'') \<notin> set (map u_email (users d))"
    and seq: "users_id_seq d \<le> 2147483647" "users_id_seq d \<notin> set (map u_id (users d))"
    and store: "store_fault e InsertUser = None"
  shows "app e req d =
     (json (JObj
        [(''success'', JBool True), (''message'', JStr ''Registration successful''),
         (''user'', JObj
            [(''id'', JNum (of_int (users_id_seq d))),
             (''email'', JStr (param_text e (field (req_body req) ''email''))),
             (''first_name'', JStr (param_text e (field (req_body req) ''firstName''))),
             (''last_name'', JStr (param_text e (field (req_body req) ''lastName''))),
             (''created_at'', JDate (current_timestamp e))]),
         (''token'', JStr (jwt_sign e
            [(''id'', JNum (of_int (users_id_seq d))), (''email'', field (req_body req) ''email'')]
            (jwt_secret e) seven_days))]),
      d\<lparr>users_id_seq := users_id_seq d + 1,
        users := users d @
          [\<lparr>u_id = users_id_seq d, u_email = param_text e (field (req_body req) ''email''),
            u_first_name = param_text e (field (req_body req) ''firstName''),
            u_last_name = param_text e (field (req_body req) ''lastName''),
            u_password = bcrypt_hash_fn e pw 10, u_created_at = current_timestamp e,
            u_last_login = None, u_settings = JObj []\<rparr>]\<rparr>)
   \<and> (\<forall>ev. hmac ev = hmac e \<and> jwt_secret ev = jwt_secret e
          \<and> jwt_decode ev (jwt_sign e
                [(''id'', JNum (of_int (users_id_seq d))), (''email'', field (req_body req) ''email'')]
                (jwt_secret e) seven_days)
              = Some (jwt_token e
                [(''id'', JNum (of_int (users_id_seq d))), (''email'', field (req_body req) ''email'')]
                (jwt_secret e) seven_days)
          \<and> clock_timestamp ev < clock_timestamp e + seven_days
        \<longrightarrow> jwt_verify ev (jwt_sign e
                [(''id'', JNum (of_int (users_id_seq d))), (''email'', field (req_body req) ''email'')]
                (jwt_secret e) seven_days) (jwt_secret ev)
            = Inr (JObj [(''id'', JNum (of_int (users_id_seq d))),
                         (''email'', field (req_body req) ''email''),
                         (''iat'', JNum (of_nat (clock_timestamp e))),
                         (''exp'', JNum (of_nat (clock_timestamp e + seven_days)))]))"
proof (intro conjI allI impI)
  have c: "object_coercible (req_body req)"
    using present(1) by (rule truthy_coercible)
  show "app e req d = (json (JObj
        [(''success'', JBool True), (''message'', JStr ''Registration successful''),
         (''user'', JObj
            [(''id'', JNum (of_int (users_id_seq d))),
             (''email'', JStr (param_text e (field (req_body req) ''email''))),
             (''first_name'', JStr (param_text e (field (req_body req) ''firstName''))),
             (''last_name'', JStr (param_text e (field (req_body req) ''lastName''))),
             (''created_at'', JDate (current_timestamp e))]),
         (''token'', JStr (jwt_sign e
            [(''id'', JNum (of_int (users_id_seq d))), (''email'', field (req_body req) ''email'')]
            (jwt_secret e) seven_days))]),
      d\<lparr>users_id_seq := users_id_seq d + 1,
        users := users d @
          [\<lparr>u_id = users_id_seq d, u_email = param_text e (field (req_body req) ''email''),
            u_first_name = param_text e (field (req_body req) ''firstName''),
            u_last_name = param_text e (field (req_body req) ''lastName''),
            u_password = bcrypt_hash_fn e pw 10, u_created_at = current_timestamp e,
            u_last_login = None, u_settings = JObj []\<rparr>]\<rparr>)"
    using route present password c
      insert_user_new [OF store present fits clean new]
    by (simp add: app_def register_def register_try_def Let_def get_prop_def user_returning_def)
next
  fix ev
  assume "hmac ev = hmac e \<and> jwt_secret ev = jwt_secret e
          \<and> jwt_decode ev (jwt_sign e
                [(''id'', JNum (of_int (users_id_seq d))), (''email'', field (req_body req) ''email'')]
                (jwt_secret e) seven_days)
              = Some (jwt_token e
                [(''id'', JNum (of_int (users_id_seq d))), (''email'', field (req_body req) ''email'')]
                (jwt_secret e) seven_days)
          \<and> clock_timestamp ev < clock_timestamp e + seven_days"
  then show "jwt_verify ev (jwt_sign e
                [(''id'', JNum (of_int (users_id_seq d))), (''email'', field (req_body req) ''email'')]
                (jwt_secret e) seven_days) (jwt_secret ev)
            = Inr (JObj [(''id'', JNum (of_int (users_id_seq d))),
                         (''email'', field (req_body req) ''email''),
                         (''iat'', JNum (of_nat (clock_timestamp e))),
                         (''exp'', JNum (of_nat (clock_timestamp e + seven_days)))])"
    using verify_issued by blast
qed

text \<open>
  C3 as stated fails: with a new email and four non-empty fields, a first name of 101
  characters does not fit its column, and the response is 400 "Registration failed".
\<close>

theorem register_long_name_counterexample:
  "param_text sample_env (field (req_body long_name_request) ''email'')
      \<notin> set (map u_email (users sample_db))
   \<and> truthy (field (req_body long_name_request) ''email'')
   \<and> truthy (field (req_body long_name_request) ''firstName'')
   \<and> truthy (field (req_body long_name_request) ''lastName'')
   \<and> truthy (field (req_body long_name_request) ''password'')
   \<and> app sample_env long_name_request sample_db = (failure 400 ''Registration failed'', sample_db)"
  by (simp add: long_name_request_def request0_def sample_db_def sample_user_def app_def
      register_def register_try_def insert_user_def varchar_def sample_env_def pg_error_def)

text \<open>
  A first name that contains the character U+0000 is refused as well: the store does
  not take the parameter, and the response is 400 "Registration failed".
\<close>

lemma register_nul_name:
  "app sample_env nul_name_request sample_db = (failure 400 ''Registration failed'', sample_db)"
  by (simp add: nul_name_request_def request0_def sample_db_def sample_user_def app_def
      register_def register_try_def insert_user_def varchar_def sample_env_def)

theorem register_new_email_witness:
  "app sample_env register_request initDB =
     (json (JObj
        [(''success'', JBool True), (''message'', JStr ''Registration successful''),
         (''user'', JObj
            [(''id'', JNum 1), (''email'', JStr ''a@b.com''), (''first_name'', JStr ''A''),
             (''last_name'', JStr ''B''), (''created_at'', JDate 50)]),
         (''token'', JStr ''h.p.s'')]), sample_db)
   \<and> jwt_verify sample_env ''h.p.s'' (jwt_secret sample_env)
       = Inr (JObj [(''id'', JNum 1), (''email'', JStr ''a@b.com''),
                    (''iat'', JNum 1000), (''exp'', JNum 605800)])"
proof -
  have t: "jwt_token sample_env [(''id'', JNum 1), (''email'', JStr ''a@b.com'')]
             (jwt_secret sample_env) 604800 = sample_token"
    using sample_jwt_token by (simp add: seven_days_def)
  have g: "jwt_sign sample_env [(''id'', JNum 1), (''email'', JStr ''a@b.com'')]
             (jwt_secret sample_env) 604800 = ''h.p.s''"
    using sample_sign by (simp add: seven_days_def)
  have v: "jwt_decode sample_env ''h.p.s'' = Some sample_token"
    by (simp add: sample_env_def)
  have f: "field (req_body register_request) ''email'' = JStr ''a@b.com''"
    "field (req_body register_request) ''firstName'' = JStr ''A''"
    "field (req_body register_request) ''lastName'' = JStr ''B''"
    "field (req_body register_request) ''password'' = JStr ''pw123456''"
    "req_route register_request = PostRegister"
    by (simp_all add: register_request_def request0_def)
  have s: "store_fault sample_env InsertUser = None" "bcrypt_hash_fn sample_env ''pw123456'' 10 = ''$2a$pw123456''"
    "current_timestamp sample_env = 50" "clock_timestamp sample_env = 1000" "seven_days = 604800"
    by (simp_all add: sample_env_def clock_timestamp_def seven_days_def)
  have d: "initDB\<lparr>users_id_seq := 2, users := [sample_user]\<rparr> = sample_db" "users initDB = []"
    "users_id_seq initDB = 1"
    by (simp_all add: initDB_def sample_db_def)
  show ?thesis
    using register_new_email [where req = register_request and e = sample_env
        and pw = "''pw123456''" and d = initDB]
    by (simp add: f s d t g v sample_user_def [symmetric])
qed

subsection \<open>Login\<close>

lemma pg_integer_of_int [simp]: "pg_integer e (JNum (of_int i)) = Inr (Some i)"
  by simp

lemma user_star_fields [simp]:
  "field (user_star u) ''id'' = JNum (of_int (u_id u))"
  "field (user_star u) ''email'' = JStr (u_email u)"
  "field (user_star u) ''password'' = JStr (u_password u)"
  by (simp_all add: user_star_def)

lemma delete_password: "delete_prop (user_star u) ''password'' = user_profile u"
  by (simp add: user_star_def user_profile_def)

lemma login_try_valid:
  assumes "object_coercible (req_body req)"
    and "prepareValue e (field (req_body req) ''email'') = Some em"
    and "filter (\<lambda>u. u_email u = em) (users d) = u # us"
    and "field (req_body req) ''password'' = JStr pw"
    and "bcrypt_compare_fn e pw (u_password u)"
    and "store_fault e SelectUserByEmail = None"
  shows "login_try e req d =
     (case update_last_login e (JNum (of_int (u_id u))) d of
        (Inl err, d') \<Rightarrow> (Inl err, d')
      | (Inr res, d') \<Rightarrow>
          (Inr (json (JObj
             [(''success'', JBool True), (''message'', JStr ''Login successful''),
              (''user'', user_profile u),
              (''token'', JStr (jwt_sign e
                 [(''id'', JNum (of_int (u_id u))), (''email'', JStr (u_email u))]
                 (jwt_secret e) seven_days))])), d'))"
  using assms
  by (simp add: login_try_def select_user_by_email_def Let_def delete_password
      split: prod.splits sum.splits)

text \<open>
  C4, as amended. For a login request with a known email and a matching password (and a
  store that answers the SELECT), the response reports success exactly when the
  last-login UPDATE succeeds: the handler awaits the UPDATE inside its \<open>try\<close> block,
  so when the store fails it the response is 500 "Login failed" and no token is issued.
\<close>

theorem login_awaits_last_login:
  assumes "req_route req = PostLogin"
    and "object_coercible (req_body req)"
    and "prepareValue e (field (req_body req) ''email'') = Some em"
    and "filter (\<lambda>u. u_email u = em) (users d) = u # us"
    and "field (req_body req) ''password'' = JStr pw"
    and "bcrypt_compare_fn e pw (u_password u)"
    and "store_fault e SelectUserByEmail = None"
  shows "(store_fault e UpdateLastLogin = None \<longrightarrow>
            app e req d =
              (json (JObj
                 [(''success'', JBool True), (''message'', JStr ''Login successful''),
                  (''user'', user_profile u),
                  (''token'', JStr (jwt_sign e
                     [(''id'', JNum (of_int (u_id u))), (''email'', JStr (u_email u))]
                     (jwt_secret e) seven_days))]),
               d\<lparr>users :=
                  map (\<lambda>v. if u_id v = u_id u then v\<lparr>u_last_login := Some (current_timestamp e)\<rparr> else v)
                    (users d)\<rparr>))
       \<and> (\<forall>err. store_fault e UpdateLastLogin = Some err \<longrightarrow>
            app e req d = (failure 500 ''Login failed'', d))"
  using assms(1) login_try_valid [OF assms(2-7)]
  by (simp add: app_def login_def update_last_login_def)

text \<open>
  C4 as stated fails: the sample user logs in with the right password while the store
  fails the UPDATE of \<open>last_login\<close>, and the response is 500 "Login failed".
\<close>

theorem login_update_failure_counterexample:
  "filter (\<lambda>u. u_email u = ''a@b.com'') (users sample_db) = [sample_user]
   \<and> field (req_body login_request) ''email'' = JStr ''a@b.com''
   \<and> field (req_body login_request) ''password'' = JStr ''pw123456''
   \<and> bcrypt_compare_fn (sample_env\<lparr>store_fault := update_fails\<rparr>) ''pw123456'' (u_password sample_user)
   \<and> app (sample_env\<lparr>store_fault := update_fails\<rparr>) login_request sample_db
       = (failure 500 ''Login failed'', sample_db)"
  by (simp add: login_request_def request0_def sample_db_def sample_user_def sample_env_def
      update_fails_def app_def login_def login_try_def select_user_by_email_def
      update_last_login_def user_star_def)

theorem login_awaits_last_login_witness:
  "app sample_env login_request sample_db =
     (json (JObj
        [(''success'', JBool True), (''message'', JStr ''Login successful''),
         (''user'', user_profile sample_user), (''token'', JStr ''h.p.s'')]),
      sample_db\<lparr>users := [sample_user\<lparr>u_last_login := Some 50\<rparr>]\<rparr>)
   \<and> app (sample_env\<lparr>store_fault := update_fails\<rparr>) login_request sample_db
       = (failure 500 ''Login failed'', sample_db)"
proof -
  have r: "req_route login_request = PostLogin" "object_coercible (req_body login_request)"
    "field (req_body login_request) ''email'' = JStr ''a@b.com''"
    "field (req_body login_request) ''password'' = JStr ''pw123456''"
    by (simp_all add: login_request_def request0_def)
  have d: "filter (\<lambda>u. u_email u = ''a@b.com'') (users sample_db) = [sample_user]"
    "users sample_db = [sample_user]" "u_id sample_user = 1" "u_email sample_user = ''a@b.com''"
    by (simp_all add: sample_db_def sample_user_def)
  have a: "app sample_env login_request sample_db =
     (json (JObj
        [(''success'', JBool True), (''message'', JStr ''Login successful''),
         (''user'', user_profile sample_user), (''token'', JStr ''h.p.s'')]),
      sample_db\<lparr>users := [sample_user\<lparr>u_last_login := Some 50\<rparr>]\<rparr>)"
    using login_awaits_last_login [where req = login_request and e = sample_env and d = sample_db
        and em = "''a@b.com''" and u = sample_user and us = "[]" and pw = "''pw123456''"]
      sample_sign
    by (simp add: r d) (simp add: sample_env_def sample_user_def)
  have b: "app (sample_env\<lparr>store_fault := update_fails\<rparr>) login_request sample_db
       = (failure 500 ''Login failed'', sample_db)"
    using login_awaits_last_login [where req = login_request
        and e = "sample_env\<lparr>store_fault := update_fails\<rparr>" and d = sample_db
        and em = "''a@b.com''" and u = sample_user and us = "[]" and pw = "''pw123456''"]
    by (simp add: r d) (simp add: sample_env_def sample_user_def update_fails_def)
  from a b show ?thesis by simp
qed

subsection \<open>Errors of the store\<close>

lemma login_store_fault:
  "store_fault e SelectUserByEmail = Some err \<Longrightarrow> login e req d = (failure 500 ''Login failed'', d)"
  by (simp add: login_def login_try_def select_user_by_email_def Let_def)

lemma profile_store_fault:
  "store_fault e SelectProfile = Some err \<Longrightarrow>
     profile e req d = (failure 500 ''Failed to fetch profile'', d)"
  by (simp add: profile_def profile_try_def select_profile_def get_prop_def)

lemma post_readings_store_fault:
  "store_fault e InsertReading = Some err \<Longrightarrow>
     post_readings e req d = (failure 500 ''Failed to save reading'', d)"
  by (simp add: post_readings_def post_readings_try_def insert_reading_def get_prop_def Let_def)

lemma get_readings_store_fault:
  "store_fault e SelectReadings = Some err \<Longrightarrow>
     get_readings e req d = (failure 500 ''Failed to fetch readings'', d)"
  by (simp add: get_readings_def get_readings_try_def select_readings_def get_prop_def)

text \<open>
  C5, as amended. In the handlers of POST /api/login, GET /api/profile, POST /api/readings
  and GET /api/readings, every error thrown in the \<open>try\<close> block, so every error of
  the store, is answered with 500 and the fixed message of the route, in which nothing
  of the error appears; in particular this is the response whenever the store fails the
  first statement the handler sends. In POST /api/register every error thrown is
  answered with 400 and the error's \<open>detail\<close>, or "Registration failed" when it has
  none.
\<close>

theorem store_errors_translated:
  "(\<forall>err d'. login_try e req d = (Inl err, d') \<longrightarrow>
       login e req d = (failure 500 ''Login failed'', d'))
   \<and> (\<forall>err d'. profile_try e req d = (Inl err, d') \<longrightarrow>
       profile e req d = (failure 500 ''Failed to fetch profile'', d'))
   \<and> (\<forall>err d'. post_readings_try e req d = (Inl err, d') \<longrightarrow>
       post_readings e req d = (failure 500 ''Failed to save reading'', d'))
   \<and> (\<forall>err d'. get_readings_try e req d = (Inl err, d') \<longrightarrow>
       get_readings e req d = (failure 500 ''Failed to fetch readings'', d'))
   \<and> (\<forall>err. store_fault e SelectUserByEmail = Some err \<longrightarrow>
       login e req d = (failure 500 ''Login failed'', d))
   \<and> (\<forall>err. store_fault e SelectProfile = Some err \<longrightarrow>
       profile e req d = (failure 500 ''Failed to fetch profile'', d))
   \<and> (\<forall>err. store_fault e InsertReading = Some err \<longrightarrow>
       post_readings e req d = (failure 500 ''Failed to save reading'', d))
   \<and> (\<forall>err. store_fault e SelectReadings = Some err \<longrightarrow>
       get_readings e req d = (failure 500 ''Failed to fetch readings'', d))
   \<and> (\<forall>err d'. register_try e req d = (Inl err, d') \<longrightarrow>
       register e req d = (failure 400 (detail_or (err_detail err) ''Registration failed''), d'))"
  by (simp add: login_def profile_def post_readings_def get_readings_def register_def
      login_store_fault [unfolded login_def] profile_store_fault [unfolded profile_def]
      post_readings_store_fault [unfolded post_readings_def]
      get_readings_store_fault [unfolded get_readings_def])

text \<open>
  C5 as stated fails on POST /api/register: when the store fails the INSERT for a reason
  that is neither a missing field nor a duplicate email, the response is 400, not 500,
  and its message is the DETAIL line of the store's error.
\<close>

theorem register_store_error_counterexample:
  "app (sample_env\<lparr>store_fault := store_down\<rparr>) register_request initDB
     = (failure 400 ''Process 1 waits for ShareLock on transaction 2.'', initDB)"
  by (simp add: register_request_def request0_def app_def register_def register_try_def
      insert_user_def sample_env_def store_down_def)


theorem store_errors_translated_witness:
  "login (sample_env\<lparr>store_fault := store_down\<rparr>) login_request sample_db
     = (failure 500 ''Login failed'', sample_db)
   \<and> profile (sample_env\<lparr>store_fault := store_down\<rparr>) reading_request sample_db
     = (failure 500 ''Failed to fetch profile'', sample_db)
   \<and> post_readings (sample_env\<lparr>store_fault := store_down\<rparr>) reading_request sample_db
     = (failure 500 ''Failed to save reading'', sample_db)
   \<and> get_readings (sample_env\<lparr>store_fault := store_down\<rparr>) reading_request sample_db
     = (failure 500 ''Failed to fetch readings'', sample_db)
   \<and> register (sample_env\<lparr>store_fault := store_down\<rparr>) register_request initDB
     = (failure 400 ''Process 1 waits for ShareLock on transaction 2.'', initDB)"
proof -
  let ?e = "sample_env\<lparr>store_fault := store_down\<rparr>"
  let ?err = "DatabaseError (Some ''Process 1 waits for ShareLock on transaction 2.'')"
  have f: "store_fault ?e q = Some ?err" for q
    by (simp add: store_down_def)
  have u: "object_coercible (req_user reading_request)" "object_coercible (req_body reading_request)"
    "object_coercible (req_body login_request)"
    by (simp_all add: reading_request_def sample_token_def login_request_def request0_def)
  have t1: "login_try ?e login_request sample_db = (Inl ?err, sample_db)"
    using u by (simp add: login_try_def select_user_by_email_def store_down_def Let_def)
  have t2: "profile_try ?e reading_request sample_db = (Inl ?err, sample_db)"
    using u by (simp add: profile_try_def select_profile_def store_down_def get_prop_def)
  have t3: "post_readings_try ?e reading_request sample_db = (Inl ?err, sample_db)"
    using u by (simp add: post_readings_try_def insert_reading_def store_down_def get_prop_def Let_def)
  have t4: "get_readings_try ?e reading_request sample_db = (Inl ?err, sample_db)"
    using u by (simp add: get_readings_try_def select_readings_def store_down_def get_prop_def)
  have t5: "register_try ?e register_request initDB = (Inl ?err, initDB)"
    by (simp add: register_try_def insert_user_def store_down_def register_request_def request0_def)
  note a = store_errors_translated [where e = ?e and req = login_request and d = sample_db]
  note b = store_errors_translated [where e = ?e and req = reading_request and d = sample_db]
  note c = store_errors_translated [where e = ?e and req = register_request and d = initDB]
  show ?thesis
    using a b c t1 t2 t3 t4 t5 f by simp
qed

subsection \<open>The password hash stays in the store\<close>

lemma failure_keys [simp]:
  "user_keys (failure n m) = []" "keys (res_body (failure n m)) = [''success'', ''message'']"
  by (simp_all add: user_keys_def failure_def)

lemma json_keys [simp]:
  "user_keys (json (JObj [(''success'', a), (''message'', b), (''user'', v), (''token'', t)])) = keys v"
  "user_keys (json (JObj [(''success'', a), (''user'', v)])) = keys v"
  "keys (res_body (json (JObj kvs))) = map fst kvs"
  by (simp_all add: user_keys_def json_def)

lemma row_keys [simp]:
  "keys (user_returning u) = returning_columns" "keys (user_profile u) = profile_columns"
  by (simp_all add: user_returning_def user_profile_def returning_columns_def profile_columns_def)

lemma insert_user_rows:
  "insert_user e a b c p d = (Inr rows, d') \<Longrightarrow> \<exists>u. rows = [user_returning u]"
  by (auto simp: insert_user_def Let_def split: option.splits sum.splits if_splits)

lemma register_keys:
  "user_keys (fst (register e req d)) \<in> {[], returning_columns}
   \<and> ''password'' \<notin> set (keys (res_body (fst (register e req d))))"
  by (auto simp: register_def register_try_def Let_def get_prop_def
      split: if_splits sum.splits prod.splits dest!: insert_user_rows)

lemma select_user_rows:
  "select_user_by_email e em d = Inr rows \<Longrightarrow> \<exists>xs. rows = map user_star xs"
  by (auto simp: select_user_by_email_def split: option.splits)

lemma user_star_rows0 [simp]:
  "xs \<noteq> [] \<Longrightarrow> delete_prop (rows0 (map user_star xs)) ''password'' = user_profile (hd xs)"
  by (cases xs) (simp_all add: delete_password)

lemma login_keys:
  "user_keys (fst (login e req d)) \<in> {[], profile_columns}
   \<and> ''password'' \<notin> set (keys (res_body (fst (login e req d))))"
proof (cases "select_user_by_email e (field (req_body req) ''email'') d")
  case (Inl err)
  then show ?thesis
    by (simp add: login_def login_try_def Let_def)
next
  case (Inr rows)
  then obtain xs where "rows = map user_star xs"
    using select_user_rows by blast
  with Inr show ?thesis
    by (simp add: login_def login_try_def Let_def split: sum.split prod.split)
qed

lemma profile_rows0 [simp]:
  "keys (rows0 (map user_profile xs)) = (if xs = [] then [] else profile_columns)"
  by (cases xs) simp_all

lemma profile_keys:
  "user_keys (fst (profile e req d)) \<in> {[], profile_columns}
   \<and> ''password'' \<notin> set (keys (res_body (fst (profile e req d))))"
  by (auto simp: profile_def profile_try_def select_profile_def
      split: sum.splits option.splits)

lemma json_no_user [simp]:
  "user_keys (json (JObj [(''success'', a), (''message'', b)])) = []"
  "user_keys (json (JObj [(''success'', a), (''readings'', c)])) = []"
  by (simp_all add: user_keys_def json_def)

lemma post_readings_keys:
  "user_keys (fst (post_readings e req d)) = []
   \<and> ''password'' \<notin> set (keys (res_body (fst (post_readings e req d))))"
  by (simp add: post_readings_def post_readings_try_def Let_def
      split: sum.split prod.split)

lemma get_readings_keys:
  "user_keys (fst (get_readings e req d)) = []
   \<and> ''password'' \<notin> set (keys (res_body (fst (get_readings e req d))))"
  by (simp add: get_readings_def get_readings_try_def
      split: sum.split prod.split)

lemma authenticateToken_cases:
  assumes "\<And>r. P (fst (h r d))"
    and "P (failure 401 ''Access token required'')"
    and "P (failure 403 ''Invalid or expired token'')"
  shows "P (fst (authenticateToken e req h d))"
  using assms by (simp add: authenticateToken_def split: option.splits sum.splits)

text \<open>
  C6. No response carries a \<open>password\<close> property, at the top of the body or in its
  \<open>user\<close> object: the \<open>user\<close> of a register response has exactly the properties
  id, email, first_name, last_name, created_at; that of a login response is the selected
  row without \<open>password\<close>, which leaves the seven columns the profile selection names;
  that of a profile response has those seven columns (or is \<open>undefined\<close> when no row
  has the id); no other response has a \<open>user\<close>.
\<close>

theorem responses_without_password:
  "''password'' \<notin> set (keys (res_body (fst (app e req d))))
   \<and> ''password'' \<notin> set (user_keys (fst (app e req d)))
   \<and> user_keys (fst (app e req d)) \<in>
        (case req_route req of
           PostRegister \<Rightarrow> {[], returning_columns}
         | PostLogin \<Rightarrow> {[], profile_columns}
         | GetProfile \<Rightarrow> {[], profile_columns}
         | _ \<Rightarrow> {[]})"
proof -
  let ?P = "\<lambda>S res. ''password'' \<notin> set (keys (res_body res))
      \<and> ''password'' \<notin> set (user_keys res) \<and> user_keys res \<in> S"
  have pw: "''password'' \<notin> set returning_columns" "''password'' \<notin> set profile_columns"
    by (simp_all add: returning_columns_def profile_columns_def)
  have f: "?P {[]} (failure n m)" "?P {[], profile_columns} (failure n m)" for n m
    by simp_all
  show ?thesis
  proof (cases "req_route req")
    case PostRegister
    with register_keys [of e req d] pw show ?thesis by (auto simp: app_def)
  next
    case PostLogin
    with login_keys [of e req d] pw show ?thesis by (auto simp: app_def)
  next
    case GetProfile
    have h: "?P {[], profile_columns} (fst (profile e r d))" for r
      using profile_keys [of e r d] pw by auto
    have "?P {[], profile_columns} (fst (authenticateToken e req (profile e) d))"
      by (rule authenticateToken_cases [where P = "?P {[], profile_columns}" and h = "profile e" and d = d,
          OF h f(2) f(2)])
    with GetProfile show ?thesis by (simp add: app_def)
  next
    case PostReadings
    have h: "?P {[]} (fst (post_readings e r d))" for r
      using post_readings_keys [of e r d] by simp
    have "?P {[]} (fst (authenticateToken e req (post_readings e) d))"
      by (rule authenticateToken_cases [where P = "?P {[]}" and h = "post_readings e" and d = d,
          OF h f(1) f(1)])
    with PostReadings show ?thesis by (simp add: app_def)
  next
    case GetReadings
    have h: "?P {[]} (fst (get_readings e r d))" for r
      using get_readings_keys [of e r d] by simp
    have "?P {[]} (fst (authenticateToken e req (get_readings e) d))"
      by (rule authenticateToken_cases [where P = "?P {[]}" and h = "get_readings e" and d = d,
          OF h f(1) f(1)])
    with GetReadings show ?thesis by (simp add: app_def)
  next
    case GetHealth
    then show ?thesis by (simp add: app_def health_def user_keys_def json_def)
  next
    case GetRoot
    then show ?thesis by (simp add: app_def root_def user_keys_def json_def)
  next
    case NoRoute
    then show ?thesis by (simp add: app_def user_keys_def)
  qed
qed

subsection \<open>Invalid credentials\<close>

text \<open>
  When the submitted password is a string and the email is free of U+0000, an unknown
  email and a known email with a password that does not match get the same response,
  and the store is not changed.
\<close>

lemma login_invalid_credentials:
  assumes "object_coercible (req_body req)"
    and "store_fault e SelectUserByEmail = None"
    and "field (req_body req) ''password'' = JStr pw"
    and "prepareValue e (field (req_body req) ''email'') = Some em"
    and "CHR 0x00 \<notin> set em"
    and "filter (\<lambda>u. u_email u = em) (users d) = []
         \<or> (\<exists>u us. filter (\<lambda>u. u_email u = em) (users d) = u # us
               \<and> \<not> bcrypt_compare_fn e pw (u_password u))"
  shows "login e req d = (failure 401 ''Invalid credentials'', d)"
  using assms
  by (auto simp: login_def login_try_def select_user_by_email_def Let_def)

text \<open>
  C7 on the code. The handler does not check that a password was sent. For the sample
  user's email and no password, \<open>bcrypt.compare\<close> rejects its argument and the response
  is 500 "Login failed"; for an email that is not in the table the same request gets
  401 "Invalid credentials". The two causes are told apart.
\<close>

theorem login_without_password_tells_apart:
  "filter (\<lambda>u. u_email u = ''a@b.com'') (users sample_db) = [sample_user]
   \<and> filter (\<lambda>u. u_email u = ''x@y.com'') (users sample_db) = []
   \<and> app sample_env (login_without_password ''a@b.com'') sample_db
       = (failure 500 ''Login failed'', sample_db)
   \<and> app sample_env (login_without_password ''x@y.com'') sample_db
       = (failure 401 ''Invalid credentials'', sample_db)"
  by (simp add: login_without_password_def request0_def sample_db_def sample_user_def
      sample_env_def app_def login_def login_try_def select_user_by_email_def user_star_def)

subsection \<open>The UNIQUE constraint on emails\<close>

lemma extends_refl [simp]: "extends d d"
  by (simp add: extends_def)

lemma extends_trans: "extends d d' \<Longrightarrow> extends d' d'' \<Longrightarrow> extends d d''"
  by (auto simp: extends_def)

lemma extends_same_users: "users d' = users d \<Longrightarrow> extends d d'"
  by (simp add: extends_def emails_def)

lemma varchar_length:
  "varchar n s = Inr s' \<Longrightarrow> length s' \<le> n \<and> CHR 0x00 \<notin> set s'"
  by (auto simp: varchar_def split: if_splits dest: in_set_takeD)

lemma coerce_varchar_length:
  "coerce_varchar n v = Inr (Some s') \<Longrightarrow> length s' \<le> n \<and> CHR 0x00 \<notin> set s'"
  by (cases v) (auto split: sum.splits dest: varchar_length)

lemma insert_user_result:
  assumes "insert_user e a b c p d = (r, d')"
  shows "(\<exists>err. r = Inl err \<and> users d' = users d)
       \<or> (\<exists>row. r = Inr [user_returning row] \<and> users d' = users d @ [row]
             \<and> u_email row \<notin> set (emails d) \<and> length (u_email row) \<le> 255
             \<and> CHR 0x00 \<notin> set (u_email row))"
proof (cases "store_fault e InsertUser")
  case (Some err)
  with assms show ?thesis by (auto simp: insert_user_def)
next
  case None
  show ?thesis
  proof (cases "coerce_varchar 255 (prepareValue e a)")
    case (Inl err)
    with None assms show ?thesis by (auto simp: insert_user_def)
  next
    case (Inr em)
    note em = this
    show ?thesis
    proof (cases em)
      case None
      with \<open>store_fault e InsertUser = None\<close> em assms show ?thesis
        by (auto simp: insert_user_def split: sum.splits)
    next
      case (Some em')
      with em have "length em' \<le> 255 \<and> CHR 0x00 \<notin> set em'"
        using coerce_varchar_length by blast
      with \<open>store_fault e InsertUser = None\<close> em Some assms show ?thesis
        by (auto simp: insert_user_def Let_def emails_def split: sum.splits option.splits if_splits)
    qed
  qed
qed


lemma register_try_users:
  "extends d (snd (register_try e req d))"
proof (cases "insert_user e (field (req_body req) ''email'') (field (req_body req) ''firstName'')
    (field (req_body req) ''lastName'')
    (JStr (bcrypt_hash_fn e (str_of (field (req_body req) ''password'')) 10)) d")
  case (Pair r d')
  from insert_user_result [OF Pair] have "extends d d'"
    by (auto simp: extends_def emails_def)
  with Pair show ?thesis
    by (cases "field (req_body req) ''password''")
       (auto simp: register_try_def Let_def split: sum.splits)
qed

lemma update_last_login_users:
  "emails (snd (update_last_login e i d)) = emails d"
  by (auto simp: update_last_login_def emails_def o_def split: option.splits sum.splits
      intro!: map_cong)

lemma update_last_login_emails:
  "update_last_login e i d = (r, d') \<Longrightarrow> emails d' = emails d"
  using update_last_login_users [of e i d] by simp

lemma login_try_users: "extends d (snd (login_try e req d))"
proof -
  have "emails (snd (login_try e req d)) = emails d"
    by (auto simp: login_try_def Let_def split: sum.splits prod.splits
        dest: update_last_login_emails)
  then show ?thesis by (simp add: extends_def)
qed

lemma insert_reading_users: "users (snd (insert_reading e i a b c d)) = users d"
  by (simp add: insert_reading_def Let_def split: option.splits sum.splits)

lemma insert_reading_same_users:
  "insert_reading e i a b c d = (r, d') \<Longrightarrow> users d' = users d"
  using insert_reading_users [of e i a b c d] by simp

lemma handler_extends:
  "extends d (snd (handler_of e r req d))"
proof (cases r)
  case PostRegister
  then show ?thesis
    using register_try_users [of d e req]
    by (cases "register_try e req d") (auto simp: register_def split: sum.splits)
next
  case PostLogin
  then show ?thesis
    using login_try_users [of d e req]
    by (cases "login_try e req d") (auto simp: login_def split: sum.splits)
next
  case GetProfile
  then show ?thesis
    by (simp add: profile_def profile_try_def split: prod.splits sum.splits)
next
  case PostReadings
  then show ?thesis
    by (auto simp: post_readings_def post_readings_try_def Let_def
        split: prod.splits sum.splits
        dest: insert_reading_same_users intro: extends_same_users)
next
  case GetReadings
  then show ?thesis
    by (simp add: get_readings_def get_readings_try_def split: prod.splits sum.splits)
next
  case GetHealth
  then show ?thesis by (simp add: health_def)
next
  case GetRoot
  then show ?thesis by (simp add: root_def)
next
  case NoRoute
  then show ?thesis by simp
qed

lemma app_extends: "extends d (snd (app e req d))"
  using handler_extends [of d e "req_route req" _]
  by (simp add: app_def authenticateToken_def split: option.splits sum.splits)

lemma serve_extends: "extends d (serve ers d)"
proof (induction ers arbitrary: d)
  case Nil
  then show ?case by simp
next
  case (Cons er ers)
  from app_extends [of d "fst er" "snd er"] Cons.IH [of "snd (app (fst er) (snd er) d)"]
  show ?case by (auto intro: extends_trans)
qed


lemma unique_rows:
  "distinct (map f xs) \<Longrightarrow> x \<in> set (map f xs) \<Longrightarrow> length (filter (\<lambda>u. f u = x) xs) = 1"
proof (induction xs)
  case Nil
  then show ?case by simp
next
  case (Cons a xs)
  show ?case
  proof (cases "f a = x")
    case True
    from Cons.prems(1) have "f a \<notin> f ` set xs"
      by simp
    with True have "\<forall>u\<in>set xs. f u \<noteq> x"
      by blast
    then have "filter (\<lambda>u. f u = x) xs = []"
      by (simp add: filter_empty_conv)
    with True show ?thesis by simp
  next
    case False
    with Cons show ?thesis by simp
  qed
qed

lemma register_success:
  assumes "register e req d = (res, d')" and "res_status res = 200"
  shows "\<exists>row t. res = json (JObj [(''success'', JBool True),
             (''message'', JStr ''Registration successful''),
             (''user'', user_returning row), (''token'', JStr t)])
          \<and> users d' = users d @ [row] \<and> length (u_email row) \<le> 255
          \<and> CHR 0x00 \<notin> set (u_email row)"
proof (cases "insert_user e (field (req_body req) ''email'') (field (req_body req) ''firstName'')
    (field (req_body req) ''lastName'')
    (JStr (bcrypt_hash_fn e (str_of (field (req_body req) ''password'')) 10)) d")
  case (Pair r d1)
  from insert_user_result [OF Pair] assms Pair show ?thesis
    by (cases "field (req_body req) ''password''")
       (auto simp: register_def register_try_def Let_def failure_def get_prop_def
          user_returning_def split: sum.splits if_splits)
qed

lemma register_duplicate:
  assumes "em \<in> set (emails d)" and "length em \<le> 255"
    and "field (req_body req) ''email'' = JStr em"
  shows "res_status (fst (register e req d)) = 400
    \<and> field (res_body (fst (register e req d))) ''success'' = JBool False
    \<and> users (snd (register e req d)) = users d"
proof (cases "insert_user e (JStr em) (field (req_body req) ''firstName'')
    (field (req_body req) ''lastName'')
    (JStr (bcrypt_hash_fn e (str_of (field (req_body req) ''password'')) 10)) d")
  case (Pair r d1)
  have "\<exists>err. r = Inl err \<and> users d1 = users d"
    using Pair assms(1,2)
    by (auto simp: insert_user_def Let_def varchar_def emails_def
        split: sum.splits option.splits if_splits)
  with Pair assms(3) show ?thesis
    by (cases "field (req_body req) ''password''")
       (auto simp: register_def register_try_def Let_def failure_def split: sum.splits)
qed

lemma register_duplicate_message:
  assumes mem: "em \<in> set (emails d)" and em: "length em \<le> 255" "CHR 0x00 \<notin> set em"
    and present: "em \<noteq> []" "field (req_body req) ''email'' = JStr em"
      "truthy (field (req_body req) ''firstName'')"
      "truthy (field (req_body req) ''lastName'')"
      "field (req_body req) ''password'' = JStr pw" "pw \<noteq> []"
    and fits: "length (param_text e (field (req_body req) ''firstName'')) \<le> 100"
      "length (param_text e (field (req_body req) ''lastName'')) \<le> 100"
      "length (bcrypt_hash_fn e pw 10) \<le> 255"
    and clean: "CHR 0x00 \<notin> set (param_text e (field (req_body req) ''firstName''))"
      "CHR 0x00 \<notin> set (param_text e (field (req_body req) ''lastName''))"
      "CHR 0x00 \<notin> set (bcrypt_hash_fn e pw 10)"
    and store: "store_fault e InsertUser = None"
  shows "fst (register e req d) = failure 400 (unique_detail em)"
proof -
  have "object_coercible (req_body req)"
    using present(3) by (rule truthy_coercible)
  moreover have "insert_user e (JStr em) (field (req_body req) ''firstName'')
      (field (req_body req) ''lastName'') (JStr (bcrypt_hash_fn e pw 10)) d
    = (Inl (DatabaseError (Some (unique_detail em))), d\<lparr>users_id_seq := users_id_seq d + 1\<rparr>)"
    using assms
    by (simp add: insert_user_def truthy_prepareValue varchar_fits Let_def emails_def)
  moreover have "unique_detail em \<noteq> []"
    by (simp add: unique_detail_def)
  ultimately show ?thesis
    using present by (simp add: register_def register_try_def Let_def)
qed

text \<open>
  C8. Start from a users table without duplicate emails and let a registration succeed,
  returning a user whose email is \<open>em\<close>. Then, after any further requests served
  in between, every registration attempt that submits \<open>em\<close> gets status 400 with
  \<open>success: false\<close>, and before and after it the table holds exactly one row
  with that email. When the attempt passes the presence check and the checks of the
  other columns (firstName, lastName and the password hash fit their columns and are
  free of the character U+0000), the next value of the sequence is within the range of
  \<open>INTEGER\<close> and not an id of the table, and the store does not fail otherwise, the
  message is the DETAIL of the violated UNIQUE constraint,
  "Key (email)=(\<open>em\<close>) already exists.".
\<close>

theorem duplicate_registration_rejected:
  assumes "distinct (map u_email (users d0))"
    and "req_route req1 = PostRegister"
    and "app e1 req1 d0 = (res1, d1)"
    and "res_status res1 = 200"
    and "field (field (res_body res1) ''user'') ''email'' = JStr em"
    and "req_route req2 = PostRegister"
    and "field (req_body req2) ''email'' = JStr em"
  shows "res_status (fst (app e2 req2 (serve ers d1))) = 400
    \<and> field (res_body (fst (app e2 req2 (serve ers d1)))) ''success'' = JBool False
    \<and> length (filter (\<lambda>u. u_email u = em) (users (serve ers d1))) = 1
    \<and> length (filter (\<lambda>u. u_email u = em) (users (snd (app e2 req2 (serve ers d1))))) = 1
    \<and> (em \<noteq> [] \<and> truthy (field (req_body req2) ''firstName'')
        \<and> truthy (field (req_body req2) ''lastName'')
        \<and> (\<exists>pw. field (req_body req2) ''password'' = JStr pw \<and> pw \<noteq> []
              \<and> length (bcrypt_hash_fn e2 pw 10) \<le> 255
              \<and> CHR 0x00 \<notin> set (bcrypt_hash_fn e2 pw 10))
        \<and> length (param_text e2 (field (req_body req2) ''firstName'')) \<le> 100
        \<and> length (param_text e2 (field (req_body req2) ''lastName'')) \<le> 100
        \<and> CHR 0x00 \<notin> set (param_text e2 (field (req_body req2) ''firstName''))
        \<and> CHR 0x00 \<notin> set (param_text e2 (field (req_body req2) ''lastName''))
        \<and> users_id_seq (serve ers d1) \<le> 2147483647
        \<and> users_id_seq (serve ers d1) \<notin> set (map u_id (users (serve ers d1)))
        \<and> store_fault e2 InsertUser = None
        \<longrightarrow> fst (app e2 req2 (serve ers d1)) = failure 400 (unique_detail em))"
proof -
  let ?d = "serve ers d1"
  from assms(2,3) have reg: "register e1 req1 d0 = (res1, d1)"
    by (simp add: app_def)
  from register_success [OF reg assms(4)] obtain row t where
    res1: "res1 = json (JObj [(''success'', JBool True),
             (''message'', JStr ''Registration successful''),
             (''user'', user_returning row), (''token'', JStr t)])"
    and d1: "users d1 = users d0 @ [row]" and len: "length (u_email row) \<le> 255"
    and nul: "CHR 0x00 \<notin> set (u_email row)"
    by blast
  from res1 assms(5) have em: "u_email row = em"
    by (simp add: json_def user_returning_def)
  have "extends d0 d1"
    using app_extends [of d0 e1 req1] assms(3) by simp
  with serve_extends [of d1 ers] have "extends d0 ?d" and "extends d1 ?d"
    by (auto intro: extends_trans)
  then obtain new where new: "emails ?d = emails d1 @ new"
    by (auto simp: extends_def)
  from \<open>extends d0 ?d\<close> assms(1) have dist: "distinct (emails ?d)"
    by (simp add: extends_def emails_def)
  from d1 em have "em \<in> set (emails d1)"
    by (simp add: emails_def)
  with new have mem: "em \<in> set (emails ?d)"
    by simp
  from len em have len': "length em \<le> 255" by simp
  from nul em have nul': "CHR 0x00 \<notin> set em" by simp
  note dup = register_duplicate [OF mem len' assms(7), of e2]
  have app2: "app e2 req2 ?d = register e2 req2 ?d"
    using assms(6) by (simp add: app_def)
  have one: "length (filter (\<lambda>u. u_email u = em) (users ?d)) = 1"
    using unique_rows [of u_email "users ?d" em] dist mem by (simp add: emails_def)
  have msg: "fst (app e2 req2 ?d) = failure 400 (unique_detail em)"
    if "em \<noteq> []" "truthy (field (req_body req2) ''firstName'')"
      "truthy (field (req_body req2) ''lastName'')"
      "field (req_body req2) ''password'' = JStr pw" "pw \<noteq> []"
      "length (bcrypt_hash_fn e2 pw 10) \<le> 255"
      "CHR 0x00 \<notin> set (bcrypt_hash_fn e2 pw 10)"
      "length (param_text e2 (field (req_body req2) ''firstName'')) \<le> 100"
      "length (param_text e2 (field (req_body req2) ''lastName'')) \<le> 100"
      "CHR 0x00 \<notin> set (param_text e2 (field (req_body req2) ''firstName''))"
      "CHR 0x00 \<notin> set (param_text e2 (field (req_body req2) ''lastName''))"
      "store_fault e2 InsertUser = None" for pw
    using register_duplicate_message
      [OF mem len' nul' that(1) assms(7) that(2,3,4,5,8,9,6,10,11,7,12)] app2
    by simp
  from dup app2 one msg show ?thesis
    by auto
qed


lemma sample_registration:
  "app sample_env register_request initDB =
     (json (JObj
        [(''success'', JBool True), (''message'', JStr ''Registration successful''),
         (''user'', user_returning sample_user), (''token'', JStr ''h.p.s'')]), sample_db)"
  by (simp add: register_request_def request0_def app_def register_def register_try_def
      insert_user_def varchar_def initDB_def sample_db_def sample_user_def sample_env_def
      jwt_sign_def get_prop_def user_returning_def)

lemma sample_login_store:
  "users_id_seq (snd (app sample_env login_request sample_db)) = 2"
  "map u_id (users (snd (app sample_env login_request sample_db))) = [1]"
  by (simp_all add: login_request_def request0_def sample_db_def sample_user_def sample_env_def
      app_def login_def login_try_def select_user_by_email_def update_last_login_def
      user_star_def)

theorem duplicate_registration_rejected_witness:
  "fst (app sample_env register_request (serve [(sample_env, login_request)] sample_db))
     = failure 400 (unique_detail ''a@b.com'')
   \<and> length (filter (\<lambda>u. u_email u = ''a@b.com'')
        (users (serve [(sample_env, login_request)] sample_db))) = 1
   \<and> length (filter (\<lambda>u. u_email u = ''a@b.com'')
        (users (snd (app sample_env register_request
           (serve [(sample_env, login_request)] sample_db))))) = 1"
proof -
  have r: "req_route register_request = PostRegister"
    "field (req_body register_request) ''email'' = JStr ''a@b.com''"
    "field (req_body register_request) ''firstName'' = JStr ''A''"
    "field (req_body register_request) ''lastName'' = JStr ''B''"
    "field (req_body register_request) ''password'' = JStr ''pw123456''"
    by (simp_all add: register_request_def request0_def)
  have e: "store_fault sample_env InsertUser = None"
    "bcrypt_hash_fn sample_env ''pw123456'' 10 = ''$2a$pw123456''"
    by (simp_all add: sample_env_def)
  have u: "field (field (res_body (json (JObj
        [(''success'', JBool True), (''message'', JStr ''Registration successful''),
         (''user'', user_returning sample_user), (''token'', JStr ''h.p.s'')]))) ''user'') ''email''
      = JStr ''a@b.com''"
    "res_status (json (JObj
        [(''success'', JBool True), (''message'', JStr ''Registration successful''),
         (''user'', user_returning sample_user), (''token'', JStr ''h.p.s'')])) = 200"
    by (simp_all add: json_def user_returning_def sample_user_def)
  have d: "distinct (map u_email (users initDB))"
    by (simp add: initDB_def)
  show ?thesis
    using duplicate_registration_rejected [OF d r(1) sample_registration u(2) u(1) r(1) r(2),
        of sample_env "[(sample_env, login_request)]"]
    by (simp add: r e sample_login_store)
qed

subsection \<open>Readings\<close>

lemma order_readings_sorted:
  "sorted_wrt (\<lambda>a b. r_timestamp a \<ge> r_timestamp b) (order_readings e i d)"
proof -
  have "sorted (map (\<lambda>r. - int (r_timestamp r)) (order_readings e i d))"
    unfolding order_readings_def by (rule sorted_sort_key)
  then show ?thesis
    by (simp add: sorted_map)
qed

lemma order_readings_set:
  "set (order_readings e i d) = {r \<in> set (energy_readings d). r_user_id r = Some i}"
  by (auto simp: order_readings_def)

lemma order_readings_length:
  "length (order_readings e i d) = length (filter (\<lambda>r. r_user_id r = Some i) (energy_readings d))"
  by (simp add: order_readings_def)

text \<open>Rows of one timestamp come in the order of the store's choice.\<close>

lemma order_readings_ties:
  "sorted (map (tie_rank e) (filter (\<lambda>r. r_timestamp r = t) (order_readings e i d)))"
proof -
  let ?ys = "sort_key (tie_rank e) (filter (\<lambda>r. r_user_id r = Some i) (energy_readings d))"
  have "filter (\<lambda>r. r_timestamp r = t) (order_readings e i d)
      = filter (\<lambda>r. - int (r_timestamp r) = - int t) (sort_key (\<lambda>r. - int (r_timestamp r)) ?ys)"
    by (simp add: order_readings_def)
  also have "\<dots> = filter (\<lambda>r. - int (r_timestamp r) = - int t) ?ys"
    by (rule sort_key_stable)
  also have "\<dots> = sort_key (tie_rank e)
      (filter (\<lambda>r. - int (r_timestamp r) = - int t)
         (filter (\<lambda>r. r_user_id r = Some i) (energy_readings d)))"
    by (rule filter_sort)
  finally show ?thesis
    by (simp only: sorted_sort_key)
qed

lemma sample_ties:
  "map r_id (list_readings sample_env 1 sample_db_ties) = [1, 2, 3]"
  by (simp add: list_readings_def order_readings_def sample_db_ties_def tied_reading_def
      sample_env_def)

lemma list_readings_sorted:
  "sorted_wrt (\<lambda>a b. r_timestamp a \<ge> r_timestamp b) (list_readings e i d)"
  unfolding list_readings_def using order_readings_sorted by (rule sorted_wrt_take)

lemma list_readings_owner: "r \<in> set (list_readings e i d) \<Longrightarrow> r_user_id r = Some i"
  by (auto simp: list_readings_def order_readings_set dest: in_set_takeD)

lemma list_readings_stored:
  "r \<in> set (list_readings e i d) \<Longrightarrow> r \<in> set (energy_readings d)"
  by (auto simp: list_readings_def order_readings_set dest: in_set_takeD)

lemma list_readings_cap:
  "length (list_readings e i d) =
     min 100 (length (filter (\<lambda>r. r_user_id r = Some i) (energy_readings d)))"
  by (simp add: list_readings_def order_readings_length min.commute)

lemma newest_first:
  assumes "sorted_wrt (\<lambda>a b. r_timestamp a \<ge> r_timestamp b) xs"
    and "row \<in> set xs"
    and "\<forall>r\<in>set xs. r \<noteq> row \<longrightarrow> r_timestamp r < r_timestamp row"
  shows "hd xs = row"
proof (cases xs)
  case Nil
  with assms(2) show ?thesis by simp
next
  case (Cons y ys)
  with assms(1,2) have "r_timestamp row \<le> r_timestamp y"
    by auto
  moreover from Cons assms(3) have "y \<noteq> row \<longrightarrow> r_timestamp y < r_timestamp row"
    by simp
  ultimately have "y = row"
    by auto
  with Cons show ?thesis by simp
qed

lemma list_readings_newest:
  assumes "energy_readings d' = energy_readings d @ [row]"
    and "r_user_id row = Some i"
    and "\<forall>r\<in>set (energy_readings d). r_user_id r = Some i \<longrightarrow> r_timestamp r < r_timestamp row"
  shows "list_readings e i d' \<noteq> [] \<and> hd (list_readings e i d') = row"
proof -
  let ?xs = "order_readings e i d'"
  have mem: "row \<in> set ?xs"
    using assms(1,2) by (simp add: order_readings_set)
  have "\<forall>r\<in>set ?xs. r \<noteq> row \<longrightarrow> r_timestamp r < r_timestamp row"
    using assms(1,3) by (auto simp: order_readings_set)
  with order_readings_sorted mem have "hd ?xs = row"
    by (rule newest_first)
  moreover have "?xs \<noteq> []"
    using mem by (metis empty_iff list.set(1))
  ultimately show ?thesis
    by (simp add: list_readings_def)
qed

lemma reading_star_owner:
  "r_user_id r = Some i \<Longrightarrow>
   reading_star e r = JObj
     [(''id'', JNum (of_int (r_id r))), (''user_id'', JNum (of_int i)),
      (''power_w'', case r_power_w r of None \<Rightarrow> JNull | Some q \<Rightarrow> JStr (numeric_out e 2 q)),
      (''energy_wh'', case r_energy_wh r of None \<Rightarrow> JNull | Some q \<Rightarrow> JStr (numeric_out e 2 q)),
      (''cost'', case r_cost r of None \<Rightarrow> JNull | Some q \<Rightarrow> JStr (numeric_out e 4 q)),
      (''timestamp'', JDate (r_timestamp r))]"
  by (simp add: reading_star_def split: option.split)


lemma claims_coercible: "field claims k = JNum q \<Longrightarrow> object_coercible claims"
  by (cases claims) simp_all

lemma authenticated:
  assumes "protected (req_route req)" and "extract_token req = Some t"
    and "jwt_verify e t (jwt_secret e) = Inr claims"
  shows "app e req d = handler_of e (req_route req) (req\<lparr>req_user := claims\<rparr>) d"
  using assms by (simp add: app_def authenticateToken_def)

lemma insert_reading_ok:
  assumes "store_fault e InsertReading = None"
    and "pg_integer e idv = Inr uid"
    and "case uid of None \<Rightarrow> True | Some i \<Rightarrow> i \<in> set (map u_id (users d))"
    and "pg_numeric e 10 2 a = Inr pw" and "pg_numeric e 10 2 b = Inr en"
    and "pg_numeric e 10 4 c = Inr co"
  shows "insert_reading e idv a b c d =
     (Inr [], d\<lparr>energy_readings_id_seq := energy_readings_id_seq d + 1,
               energy_readings := energy_readings d @
                 [\<lparr>r_id = energy_readings_id_seq d, r_user_id = uid, r_power_w = pw,
                   r_energy_wh = en, r_cost = co, r_timestamp = current_timestamp e\<rparr>]\<rparr>)"
  using assms by (simp add: insert_reading_def Let_def)

lemma post_readings_ok:
  assumes "object_coercible (req_body req)" and "object_coercible (req_user req)"
    and "store_fault e InsertReading = None"
    and "pg_integer e (field (req_user req) ''id'') = Inr uid"
    and "case uid of None \<Rightarrow> True | Some i \<Rightarrow> i \<in> set (map u_id (users d))"
    and "pg_numeric e 10 2 (field (req_body req) ''power'') = Inr pw"
    and "pg_numeric e 10 2 (field (req_body req) ''energy'') = Inr en"
    and "pg_numeric e 10 4 (field (req_body req) ''cost'') = Inr co"
  shows "post_readings e req d =
     (json (JObj [(''success'', JBool True), (''message'', JStr ''Reading saved'')]),
      d\<lparr>energy_readings_id_seq := energy_readings_id_seq d + 1,
        energy_readings := energy_readings d @
          [\<lparr>r_id = energy_readings_id_seq d, r_user_id = uid, r_power_w = pw,
            r_energy_wh = en, r_cost = co, r_timestamp = current_timestamp e\<rparr>]\<rparr>)"
  using assms(1,2) insert_reading_ok [OF assms(3-8)]
  by (simp add: post_readings_def post_readings_try_def get_prop_def Let_def)

lemma get_readings_ok:
  assumes "field (req_user req) ''id'' = JNum (of_int uid)"
    and "store_fault e SelectReadings = None"
  shows "get_readings e req d =
     (json (JObj [(''success'', JBool True),
                  (''readings'', JArr (map (reading_star e) (list_readings e uid d)))]), d)"
  using assms claims_coercible [OF assms(1)]
  by (simp add: get_readings_def get_readings_try_def get_prop_def select_readings_def)

lemma sample_numeric:
  "pg_numeric sample_env 10 2 (JNum 100) = Inr (Some 100)"
  "pg_numeric sample_env 10 2 (JNum 5) = Inr (Some 5)"
  "pg_numeric sample_env 10 4 (JNum 2) = Inr (Some 2)"
proof -
  have "\<lfloor>(20001::rat) / 2\<rfloor> = 10000" "\<lfloor>(1001::rat) / 2\<rfloor> = 500"
    "\<lfloor>(40001::rat) / 2\<rfloor> = 20000"
    by (rule floor_unique, simp, simp)+
  then show "pg_numeric sample_env 10 2 (JNum 100) = Inr (Some 100)"
    "pg_numeric sample_env 10 2 (JNum 5) = Inr (Some 5)"
    "pg_numeric sample_env 10 4 (JNum 2) = Inr (Some 2)"
    by (simp_all add: decimal_def pg_round_def)
qed

text \<open>
  C9, as amended. A user whose token verifies to the id \<open>uid\<close> of an existing user
  submits a reading that the store accepts (the next value of the sequence is within
  the range of \<open>INTEGER\<close> and not an id of the table), at a time of the store's clock later than the timestamps of
  that user's earlier readings, and then lists the readings. The POST answers "Reading
  saved" and adds the row. The GET answers 200 with \<open>success: true\<close> and, under
  \<open>readings\<close>, the rows \<open>listed\<close>, each as an object of its id, the user's id, its
  three decimals as the store writes them (or null) and its timestamp. The first of
  \<open>listed\<close> is the row just added; \<open>listed\<close> is in descending order of timestamp,
  holds only stored rows of \<open>uid\<close>, and has as many rows as the user has, up to 100.
\<close>

theorem submitted_reading_listed_first:
  fixes d :: db and uid :: int and e1 e2 :: env and row :: reading_row and d1 :: db
    and pw en co :: "rat option" and listed :: "reading_row list"
  defines "row \<equiv> \<lparr>r_id = energy_readings_id_seq d, r_user_id = Some uid, r_power_w = pw,
                   r_energy_wh = en, r_cost = co, r_timestamp = current_timestamp e1\<rparr>"
    and "d1 \<equiv> d\<lparr>energy_readings_id_seq := energy_readings_id_seq d + 1,
                 energy_readings := energy_readings d @ [row]\<rparr>"
    and "listed \<equiv> list_readings e2 uid d1"
  assumes r1: "req_route req1 = PostReadings" and r2: "req_route req2 = GetReadings"
    and t1: "extract_token req1 = Some t1" and v1: "jwt_verify e1 t1 (jwt_secret e1) = Inr claims1"
    and c1: "field claims1 ''id'' = JNum (of_int uid)"
    and t2: "extract_token req2 = Some t2" and v2: "jwt_verify e2 t2 (jwt_secret e2) = Inr claims2"
    and c2: "field claims2 ''id'' = JNum (of_int uid)"
    and fk: "uid \<in> set (map u_id (users d))"
    and body: "object_coercible (req_body req1)"
    and num: "pg_numeric e1 10 2 (field (req_body req1) ''power'') = Inr pw"
      "pg_numeric e1 10 2 (field (req_body req1) ''energy'') = Inr en"
      "pg_numeric e1 10 4 (field (req_body req1) ''cost'') = Inr co"
    and f1: "store_fault e1 InsertReading = None" and f2: "store_fault e2 SelectReadings = None"
    and seq: "energy_readings_id_seq d \<le> 2147483647"
      "energy_readings_id_seq d \<notin> set (map r_id (energy_readings d))"
    and clock: "\<forall>r\<in>set (energy_readings d). r_user_id r = Some uid \<longrightarrow> r_timestamp r < current_timestamp e1"
  shows "app e1 req1 d =
           (json (JObj [(''success'', JBool True), (''message'', JStr ''Reading saved'')]), d1)
    \<and> app e2 req2 d1 =
           (\<lparr>res_status = 200,
             res_body = JObj
               [(''success'', JBool True),
                (''readings'', JArr (map (\<lambda>r. JObj
                   [(''id'', JNum (of_int (r_id r))), (''user_id'', JNum (of_int uid)),
                    (''power_w'',
                       case r_power_w r of None \<Rightarrow> JNull | Some q \<Rightarrow> JStr (numeric_out e2 2 q)),
                    (''energy_wh'',
                       case r_energy_wh r of None \<Rightarrow> JNull | Some q \<Rightarrow> JStr (numeric_out e2 2 q)),
                    (''cost'',
                       case r_cost r of None \<Rightarrow> JNull | Some q \<Rightarrow> JStr (numeric_out e2 4 q)),
                    (''timestamp'', JDate (r_timestamp r))]) listed))]\<rparr>, d1)
    \<and> listed \<noteq> [] \<and> hd listed = row
    \<and> sorted_wrt (\<lambda>a b. r_timestamp a \<ge> r_timestamp b) listed
    \<and> (\<forall>r\<in>set listed. r_user_id r = Some uid \<and> r \<in> set (energy_readings d1))
    \<and> length listed =
         min 100 (length (filter (\<lambda>r. r_user_id r = Some uid) (energy_readings d1)))"
proof -
  have post: "app e1 req1 d = (json (JObj [(''success'', JBool True), (''message'', JStr ''Reading saved'')]), d1)"
    using authenticated [of req1 t1 e1 claims1 d] r1 t1 v1 c1 claims_coercible [OF c1]
      post_readings_ok [of "req1\<lparr>req_user := claims1\<rparr>" e1 "Some uid" d pw en co]
      fk body num f1
    by (simp add: d1_def row_def)
  have "app e2 req2 d1 =
           (json (JObj [(''success'', JBool True),
                        (''readings'', JArr (map (reading_star e2) listed))]), d1)"
    using authenticated [of req2 t2 e2 claims2 d1] r2 t2 v2 c2
      get_readings_ok [of "req2\<lparr>req_user := claims2\<rparr>" uid e2 d1] f2
    by (simp add: listed_def)
  moreover have "map (reading_star e2) listed = map (\<lambda>r. JObj
                   [(''id'', JNum (of_int (r_id r))), (''user_id'', JNum (of_int uid)),
                    (''power_w'',
                       case r_power_w r of None \<Rightarrow> JNull | Some q \<Rightarrow> JStr (numeric_out e2 2 q)),
                    (''energy_wh'',
                       case r_energy_wh r of None \<Rightarrow> JNull | Some q \<Rightarrow> JStr (numeric_out e2 2 q)),
                    (''cost'',
                       case r_cost r of None \<Rightarrow> JNull | Some q \<Rightarrow> JStr (numeric_out e2 4 q)),
                    (''timestamp'', JDate (r_timestamp r))]) listed"
    by (rule map_cong [OF refl], rule reading_star_owner)
       (simp add: listed_def list_readings_owner)
  ultimately have get: "app e2 req2 d1 =
           (\<lparr>res_status = 200,
             res_body = JObj
               [(''success'', JBool True),
                (''readings'', JArr (map (\<lambda>r. JObj
                   [(''id'', JNum (of_int (r_id r))), (''user_id'', JNum (of_int uid)),
                    (''power_w'',
                       case r_power_w r of None \<Rightarrow> JNull | Some q \<Rightarrow> JStr (numeric_out e2 2 q)),
                    (''energy_wh'',
                       case r_energy_wh r of None \<Rightarrow> JNull | Some q \<Rightarrow> JStr (numeric_out e2 2 q)),
                    (''cost'',
                       case r_cost r of None \<Rightarrow> JNull | Some q \<Rightarrow> JStr (numeric_out e2 4 q)),
                    (''timestamp'', JDate (r_timestamp r))]) listed))]\<rparr>, d1)"
    by (simp only: json_def)
  have "energy_readings d1 = energy_readings d @ [row]" and "r_user_id row = Some uid"
    and "r_timestamp row = current_timestamp e1"
    by (simp_all add: d1_def row_def)
  with clock have first: "listed \<noteq> [] \<and> hd listed = row"
    unfolding listed_def by (intro list_readings_newest [of d1 d row uid]) simp_all
  have own: "\<forall>r\<in>set listed. r_user_id r = Some uid \<and> r \<in> set (energy_readings d1)"
    by (simp add: listed_def list_readings_owner list_readings_stored)
  from post get first own list_readings_sorted [of e2 uid d1] list_readings_cap [of e2 uid d1]
  show ?thesis
    unfolding listed_def by blast
qed

text \<open>
  C9 as stated fails. The column is \<open>TIMESTAMP DEFAULT CURRENT_TIMESTAMP\<close>, the local
  time of the store, which goes back when the clock is set back (as at the end of
  daylight saving time). The store holds a reading of the user with timestamp 60; the
  user submits a reading, which the store stamps 50, and lists the readings: the reading
  just submitted comes second.
\<close>

theorem submitted_reading_second_counterexample:
  "app sample_env reading_request sample_db_clock_back =
     (\<lparr>res_status = 200,
       res_body = JObj [(''success'', JBool True), (''message'', JStr ''Reading saved'')]\<rparr>,
      \<lparr>users = [sample_user], energy_readings = [late_reading, new_reading], users_id_seq = 2,
       energy_readings_id_seq = 3\<rparr>)
   \<and> fst (app sample_env (request0 GetReadings bearer JUndefined)
       \<lparr>users = [sample_user], energy_readings = [late_reading, new_reading], users_id_seq = 2,
        energy_readings_id_seq = 3\<rparr>) =
     \<lparr>res_status = 200,
      res_body = JObj
        [(''success'', JBool True),
         (''readings'', JArr
            [JObj [(''id'', JNum 1), (''user_id'', JNum 1), (''power_w'', JStr ''90.00''),
                   (''energy_wh'', JNull), (''cost'', JNull), (''timestamp'', JDate 60)],
             JObj [(''id'', JNum 2), (''user_id'', JNum 1), (''power_w'', JStr ''100.00''),
                   (''energy_wh'', JStr ''5.00''), (''cost'', JStr ''2.0000''),
                   (''timestamp'', JDate 50)]])]\<rparr>"
proof -
  have q: "decimal sample_env 10 2 100 = Inr (Some 100)"
    "decimal sample_env 10 2 5 = Inr (Some 5)"
    "decimal sample_env 10 4 2 = Inr (Some 2)"
    using sample_numeric by simp_all
  have v: "jwt_verify sample_env ''h.p.s'' (jwt_secret sample_env) = Inr (jwt_payload sample_token)"
    by (rule sample_verify)
  have p: "jwt_payload sample_token = JObj [(''id'', JNum 1), (''email'', JStr ''a@b.com''),
                           (''iat'', JNum 1000), (''exp'', JNum 605800)]"
    by (simp add: sample_token_def)
  have t: "extract_token reading_request = Some ''h.p.s''"
    "extract_token (request0 GetReadings bearer JUndefined) = Some ''h.p.s''"
    by (simp_all add: reading_request_def request0_def extract_token_def bearer_def index_def)
  have r: "req_route reading_request = PostReadings"
    "req_body reading_request = JObj [(''power'', JNum 100), (''energy'', JNum 5), (''cost'', JNum 2)]"
    "req_route (request0 GetReadings bearer JUndefined) = GetReadings"
    by (simp_all add: reading_request_def request0_def)
  have f: "store_fault sample_env q = None" "current_timestamp sample_env = 50"
    "tie_rank sample_env = (\<lambda>r. nat (r_id r))" "numeric_out sample_env = sample_numeric_out" for q
    by (simp_all add: sample_env_def)
  have post: "app sample_env reading_request sample_db_clock_back =
     (\<lparr>res_status = 200,
       res_body = JObj [(''success'', JBool True), (''message'', JStr ''Reading saved'')]\<rparr>,
      \<lparr>users = [sample_user], energy_readings = [late_reading, new_reading], users_id_seq = 2,
       energy_readings_id_seq = 3\<rparr>)"
    by (simp add: app_def authenticateToken_def t v p r post_readings_def post_readings_try_def
        get_prop_def insert_reading_def q f Let_def json_def
        sample_db_clock_back_def sample_user_def new_reading_def)
  have get: "fst (app sample_env (request0 GetReadings bearer JUndefined)
       \<lparr>users = [sample_user], energy_readings = [late_reading, new_reading], users_id_seq = 2,
        energy_readings_id_seq = 3\<rparr>) =
     \<lparr>res_status = 200,
      res_body = JObj
        [(''success'', JBool True),
         (''readings'', JArr
            [JObj [(''id'', JNum 1), (''user_id'', JNum 1), (''power_w'', JStr ''90.00''),
                   (''energy_wh'', JNull), (''cost'', JNull), (''timestamp'', JDate 60)],
             JObj [(''id'', JNum 2), (''user_id'', JNum 1), (''power_w'', JStr ''100.00''),
                   (''energy_wh'', JStr ''5.00''), (''cost'', JStr ''2.0000''),
                   (''timestamp'', JDate 50)]])]\<rparr>"
    by (simp add: app_def authenticateToken_def t v p r get_readings_def get_readings_try_def
        get_prop_def select_readings_def list_readings_def order_readings_def f json_def
        reading_star_def late_reading_def new_reading_def sample_numeric_out_def)
  from post get show ?thesis
    by (rule conjI)
qed

theorem submitted_reading_listed_first_witness:
  "app sample_env reading_request sample_db_readings =
     (json (JObj [(''success'', JBool True), (''message'', JStr ''Reading saved'')]),
      sample_db_readings\<lparr>energy_readings_id_seq := 3,
                          energy_readings := [old_reading, new_reading]\<rparr>)
   \<and> app (sample_env\<lparr>current_timestamp := 60\<rparr>) (request0 GetReadings bearer JUndefined)
       (sample_db_readings\<lparr>energy_readings_id_seq := 3,
                           energy_readings := [old_reading, new_reading]\<rparr>) =
     (\<lparr>res_status = 200,
       res_body = JObj
         [(''success'', JBool True),
          (''readings'', JArr
             [JObj [(''id'', JNum 2), (''user_id'', JNum 1), (''power_w'', JStr ''100.00''),
                    (''energy_wh'', JStr ''5.00''), (''cost'', JStr ''2.0000''),
                    (''timestamp'', JDate 50)],
              JObj [(''id'', JNum 1), (''user_id'', JNum 1), (''power_w'', JStr ''90.00''),
                    (''energy_wh'', JNull), (''cost'', JNull), (''timestamp'', JDate 40)]])]\<rparr>,
      sample_db_readings\<lparr>energy_readings_id_seq := 3,
                          energy_readings := [old_reading, new_reading]\<rparr>)
   \<and> list_readings (sample_env\<lparr>current_timestamp := 60\<rparr>) 1
       (sample_db_readings\<lparr>energy_readings_id_seq := 3,
                           energy_readings := [old_reading, new_reading]\<rparr>)
     = [new_reading, old_reading]"
proof -
  have r: "req_route reading_request = PostReadings"
    "req_route (request0 GetReadings bearer JUndefined) = GetReadings"
    "extract_token reading_request = Some ''h.p.s''"
    "object_coercible (req_body reading_request)"
    "field (req_body reading_request) ''power'' = JNum 100"
    "field (req_body reading_request) ''energy'' = JNum 5"
    "field (req_body reading_request) ''cost'' = JNum 2"
    by (simp_all add: reading_request_def request0_def extract_token_def bearer_def index_def)
  have c: "field (jwt_payload sample_token) ''id'' = JNum (of_int 1)"
    by (simp add: sample_token_def)
  have v: "jwt_verify (sample_env\<lparr>current_timestamp := 60\<rparr>) ''h.p.s''
      (jwt_secret (sample_env\<lparr>current_timestamp := 60\<rparr>)) = Inr (jwt_payload sample_token)"
    by (simp add: jwt_verify_def jwt_secret_def clock_timestamp_def sample_env_def
        sample_token_def)
  have d: "1 \<in> set (map u_id (users sample_db_readings))"
    "energy_readings sample_db_readings = [old_reading]"
    "energy_readings_id_seq sample_db_readings = 2"
    by (simp_all add: sample_db_readings_def sample_user_def)
  have e: "store_fault sample_env InsertReading = None"
    "store_fault (sample_env\<lparr>current_timestamp := 60\<rparr>) SelectReadings = None"
    "current_timestamp sample_env = 50"
    "tie_rank sample_env = (\<lambda>r. nat (r_id r))" "numeric_out sample_env = sample_numeric_out"
    by (simp_all add: sample_env_def)
  have s: "energy_readings_id_seq sample_db_readings \<le> 2147483647"
    "energy_readings_id_seq sample_db_readings \<notin> set (map r_id (energy_readings sample_db_readings))"
    by (simp_all add: d old_reading_def)
  have o: "\<forall>r\<in>set (energy_readings sample_db_readings).
      r_user_id r = Some 1 \<longrightarrow> r_timestamp r < current_timestamp sample_env"
    by (simp add: d e old_reading_def)
  have n: "pg_numeric sample_env 10 2 (field (req_body reading_request) ''power'') = Inr (Some 100)"
    "pg_numeric sample_env 10 2 (field (req_body reading_request) ''energy'') = Inr (Some 5)"
    "pg_numeric sample_env 10 4 (field (req_body reading_request) ''cost'') = Inr (Some 2)"
    using sample_numeric by (simp_all only: r)
  have l: "list_readings (sample_env\<lparr>current_timestamp := 60\<rparr>) 1
       (sample_db_readings\<lparr>energy_readings_id_seq := 3,
                           energy_readings := [old_reading, new_reading]\<rparr>)
     = [new_reading, old_reading]"
    by (simp add: list_readings_def order_readings_def e old_reading_def new_reading_def)
  show ?thesis
    using submitted_reading_listed_first [OF r(1) r(2) r(3) sample_verify c extract_bearer v c
        d(1) r(4) n e(1) e(2) s o]
    by (simp add: d e l [unfolded old_reading_def new_reading_def] new_reading_def
        old_reading_def sample_numeric_out_def)
qed





end
